theory Spec2Isabelle
  imports Complex_Main
begin

section \<open>Numbers, series and basic statistics\<close>

text \<open>
  The scripts compute on Python/NumPy floats.  Here a float is idealised as a
  \<^typ>\<open>real\<close>: rounding is not modelled, and a NaN that the code can produce is made
  explicit (\<open>None\<close> of an option type, or the \<open>NaN\<close> of the cell type of the feature
  frames).
\<close>

definition mean :: "real list \<Rightarrow> real" where
  \<comment> \<open>\<open>Series.mean()\<close> / \<open>ndarray.mean()\<close> on a non-empty series\<close>
  "mean xs = sum_list xs / real (length xs)"

definition sq_dev :: "real list \<Rightarrow> real" where
  \<comment> \<open>sum of the squared deviations from the mean\<close>
  "sq_dev xs = sum_list (map (\<lambda>x. (x - mean xs)\<^sup>2) xs)"

definition np_std :: "real list \<Rightarrow> real" where
  \<comment> \<open>\<open>np.std(a)\<close>: NumPy's default, divisor \<open>n\<close> (ddof = 0)\<close>
  "np_std xs = sqrt (sq_dev xs / real (length xs))"

definition tail :: "nat \<Rightarrow> 'a list \<Rightarrow> 'a list" where
  \<comment> \<open>\<open>Series.tail(n)\<close>: the last \<open>n\<close> entries, all of them when there are fewer\<close>
  "tail n xs = drop (length xs - n) xs"

definition iloc_back :: "'a list \<Rightarrow> nat \<Rightarrow> 'a" where
  \<comment> \<open>\<open>xs.iloc[-k]\<close> / \<open>xs[-k]\<close> for \<open>1 \<le> k \<le> len(xs)\<close>; every call below is
      guarded by the length test the source makes\<close>
  "iloc_back xs k = xs ! (length xs - k)"

section \<open>ConfidenceEstimator: \<open>calculate_confidence_interval\<close> (predict_custom.py)\<close>

text \<open>
  A float argument or result that can be NaN is a \<open>real option\<close>, with \<open>None\<close> for NaN.
  The parameter \<open>historical_std\<close> is an optional float: Python's \<open>None\<close> is \<open>None\<close>, a NaN
  is \<open>Some None\<close> and a number \<open>s\<close> is \<open>Some (Some s)\<close>.  \<open>generate_full_report\<close> passes
  \<open>sales_df['total_sales'].std()\<close>, which is NaN for a history of one row.  The
  predictions are the numbers that the forecaster returned.
\<close>

type_synonym float = "real option"

definition ci_std :: "real list \<Rightarrow> float option \<Rightarrow> float" where
  \<comment> \<open>the dispersion: \<open>historical_std\<close> when given, else the standard deviation of
      the predictions, or 15 percent of the single prediction (of no prediction the
      result is empty whatever the dispersion)\<close>
  "ci_std predictions historical_std =
     (case historical_std of
        None \<Rightarrow> Some (if length predictions > 1 then np_std predictions
                       else mean predictions * 0.15)
      | Some s \<Rightarrow> s)"

definition ci_margin :: "real list \<Rightarrow> float option \<Rightarrow> real \<Rightarrow> float" where
  \<comment> \<open>\<open>margin = z_score * std\<close>; NaN when \<open>std\<close> is\<close>
  "ci_margin predictions historical_std confidence =
     (let std = ci_std predictions historical_std;
          z_score = (if confidence = 0.95 then 1.96 else 1.645)
      in map_option (\<lambda>s. z_score * s) std)"

definition ci_lower :: "real list \<Rightarrow> float option \<Rightarrow> real \<Rightarrow> float list" where
  \<comment> \<open>\<open>lower = predictions - margin\<close>, before the clamp\<close>
  "ci_lower predictions historical_std confidence =
     map (\<lambda>p. map_option (\<lambda>margin. p - margin)
                (ci_margin predictions historical_std confidence)) predictions"

definition ci_upper :: "real list \<Rightarrow> float option \<Rightarrow> real \<Rightarrow> float list" where
  \<comment> \<open>\<open>upper = predictions + margin\<close>\<close>
  "ci_upper predictions historical_std confidence =
     map (\<lambda>p. map_option (\<lambda>margin. p + margin)
                (ci_margin predictions historical_std confidence)) predictions"

definition np_maximum :: "float \<Rightarrow> real \<Rightarrow> float" where
  \<comment> \<open>\<open>np.maximum(x, y)\<close> on one entry: the larger number; NaN stays NaN\<close>
  "np_maximum x y = map_option (\<lambda>v. max v y) x"

definition calculate_confidence_interval ::
  "real list \<Rightarrow> float option \<Rightarrow> real \<Rightarrow> float list \<times> float list" where
  \<comment> \<open>\<open>return np.maximum(lower, 0), upper\<close>\<close>
  "calculate_confidence_interval predictions historical_std confidence =
     (map (\<lambda>l. np_maximum l 0) (ci_lower predictions historical_std confidence),
      ci_upper predictions historical_std confidence)"

section \<open>Dates and the daily series\<close>

text \<open>
  A date is the number of days since 1970-01-01 (a Thursday); \<open>timedelta(days=k)\<close> adds
  \<open>k\<close>.  \<open>weekday\<close> is Python's \<open>date.weekday()\<close> and pandas' \<open>dayofweek\<close>: Monday is 0.
\<close>

definition weekday :: "int \<Rightarrow> int" where
  "weekday d = (d + 3) mod 7"

text \<open>
  The frame that \<open>prepare_sales_df\<close> hands to the analytics: one row per receipt day,
  indexed and sorted by day, with the numeric column \<open>total_sales\<close>.
\<close>

record sales_row =
  day :: int
  total_sales :: real

section \<open>AnomalyDetector: \<open>detect_anomalies\<close> (predict_custom.py)\<close>

definition pd_std :: "real list \<Rightarrow> real option" where
  \<comment> \<open>\<open>Series.std()\<close>: pandas' default is the sample standard deviation, divisor
      \<open>n - 1\<close> (ddof = 1); it is NaN (\<open>None\<close>) for fewer than two values\<close>
  "pd_std xs = (if length xs < 2 then None
                else Some (sqrt (sq_dev xs / real (length xs - 1))))"

record anomaly =
  a_day :: int
  a_value :: real
  z_score :: real

definition detect_anomalies :: "sales_row list \<Rightarrow> real \<Rightarrow> anomaly list" where
  \<comment> \<open>the rows of \<open>df_copy\<close> whose \<open>is_anomaly\<close> is true, with their \<open>z_score\<close>.
      When \<open>std\<close> is NaN, \<open>std == 0\<close> is false, every \<open>z_score\<close> is NaN and
      \<open>abs(NaN) > threshold\<close> is false: no row is selected\<close>
  "detect_anomalies df threshold =
     (if df = [] then []
      else let m = mean (map total_sales df) in
        case pd_std (map total_sales df) of
          None \<Rightarrow> []
        | Some std \<Rightarrow>
            if std = 0 then []
            else filter (\<lambda>a. \<bar>z_score a\<bar> > threshold)
                   (map (\<lambda>r. \<lparr>a_day = day r, a_value = total_sales r,
                              z_score = (total_sales r - m) / std\<rparr>) df))"

datatype direction = Spike | Drop

definition anomaly_direction :: "anomaly \<Rightarrow> direction" where
  \<comment> \<open>\<open>generate_full_report\<close>: the status is "very high" \<open>if z > 0\<close>, else "very low"\<close>
  "anomaly_direction a = (if z_score a > 0 then Spike else Drop)"

section \<open>SeasonalAnalyzer: \<open>analyze_seasonal_patterns\<close> (predict_custom.py)\<close>

text \<open>The exceptions of the scripts, as values.\<close>

datatype error = ValueError | IndexError | KeyError | PredictError







section \<open>ModelSelector: the selection loops of train_model.py\<close>

text \<open>
  \<open>train_regression\<close> fits each candidate and scores it by MAE on the hold-out; the
  loop below is its selection, over the candidates (in registration order) with their
  scores.  \<open>best_mae = float('inf')\<close> is \<open>None\<close>: every MAE is below it.
\<close>

definition train_regression_best :: "(string \<times> real) list \<Rightarrow> (string \<times> real) option" where
  "train_regression_best scored =
     fold (\<lambda>(name, mae) best.
             case best of
               None \<Rightarrow> Some (name, mae)
             | Some (best_name, best_mae) \<Rightarrow>
                 if mae < best_mae then Some (name, mae) else best)
          scored None"

text \<open>
  \<open>main\<close> collects the metrics of the trained backends in \<open>results\<close>, sorts the comparison
  table by its \<open>mape\<close> column and reports \<open>comparison.index[0]\<close> as the best model.  (The
  table has at most three rows, on which the sort is an insertion sort.)
\<close>

record metrics =
  m_name :: string
  mae :: real
  mape :: real

definition main_best :: "metrics list \<Rightarrow> string option" where
  "main_best results =
     (if results = [] then None else Some (m_name (hd (sort_key mape results))))"

section \<open>Validation splits of the training scripts\<close>




section \<open>Calendar features\<close>

text \<open>
  Year, month and day of a day number (proleptic Gregorian calendar), for
  \<open>next_date.day\<close> and \<open>next_date.month\<close>.
\<close>

definition civil :: "int \<Rightarrow> int \<times> int \<times> int" where
  "civil d =
     (let z = d + 719468;
          era = z div 146097;
          doe = z - era * 146097;
          yoe = (doe - doe div 1460 + doe div 36524 - doe div 146096) div 365;
          doy = doe - (365 * yoe + yoe div 4 - yoe div 100);
          mp = (5 * doy + 2) div 153;
          dd = doy - (153 * mp + 2) div 5 + 1;
          mm = (if mp < 10 then mp + 3 else mp - 9)
      in (yoe + era * 400 + (if mm \<le> 2 then 1 else 0), mm, dd))"

definition day_of_month :: "int \<Rightarrow> int" where
  "day_of_month d = snd (snd (civil d))"

definition month :: "int \<Rightarrow> int" where
  "month d = fst (snd (civil d))"

definition weekday_name :: "int \<Rightarrow> string" where
  \<comment> \<open>\<open>strftime('%A')\<close>\<close>
  "weekday_name d =
     [''Monday'', ''Tuesday'', ''Wednesday'', ''Thursday'', ''Friday'', ''Saturday'',
      ''Sunday''] ! nat (weekday d)"

section \<open>Backends and feature dictionaries\<close>

text \<open>
  A fitted backend is its \<open>predict\<close> on one feature row: the predicted value, or \<open>None\<close>
  when \<open>predict\<close> raises.  A feature dictionary is an association list in insertion
  order; its keys are distinct.
\<close>

type_synonym backend = "real list \<Rightarrow> real option"

definition dict_get :: "(string \<times> real) list \<Rightarrow> string \<Rightarrow> real \<Rightarrow> real" where
  \<comment> \<open>\<open>d.get(key, default)\<close>\<close>
  "dict_get d key dflt = (case map_of d key of Some v \<Rightarrow> v | None \<Rightarrow> dflt)"

definition select_columns :: "(string \<times> real) list \<Rightarrow> string list \<Rightarrow> error + real list" where
  \<comment> \<open>\<open>pd.DataFrame([row])[cols]\<close>: the row in the order of \<open>cols\<close>; a name that is not
      a column raises \<open>KeyError\<close>\<close>
  "select_columns row cols =
     (if \<forall>c \<in> set cols. c \<in> fst ` set row
      then Inr (map (\<lambda>c. dict_get row c 0) cols) else Inl KeyError)"

text \<open>Two stub backends: one predicts its first feature, one the sum of its features.\<close>

definition first_feature_backend :: backend where
  "first_feature_backend x = (case x of [] \<Rightarrow> None | v # _ \<Rightarrow> Some v)"

definition sum_backend :: backend where
  "sum_backend x = Some (sum_list x)"

definition shifted_backend :: backend where
  \<comment> \<open>the first feature minus 300: negative on small inputs\<close>
  "shifted_backend x = (case x of [] \<Rightarrow> None | v # _ \<Rightarrow> Some (v - 300))"

section \<open>RecursiveForecaster: \<open>forecast_with_lightgbm\<close> (predict_custom.py)\<close>

definition index_max :: "sales_row list \<Rightarrow> int" where
  \<comment> \<open>\<open>df.index.max()\<close> of a non-empty frame\<close>
  "index_max df = Max (set (map day df))"

definition diff_mean :: "real list \<Rightarrow> real" where
  \<comment> \<open>\<open>s.diff().mean()\<close>: the mean of the successive differences (the leading NaN of
      \<open>diff\<close> is skipped by \<open>mean\<close>)\<close>
  "diff_mean xs = mean (map (\<lambda>k. xs ! Suc k - xs ! k) [0..<length xs - 1])"

definition lgbm_feature_values :: "sales_row list \<Rightarrow> nat \<Rightarrow> real list \<Rightarrow> (string \<times> real) list"
  where
  \<comment> \<open>the dictionary \<open>feature_values\<close> of iteration \<open>i\<close>, given the \<open>predictions\<close>
      appended so far\<close>
  "lgbm_feature_values df i predictions =
     (let sales = map total_sales df;
          last_date = index_max df;
          historical_mean = mean sales;
          next_date = last_date + int (i + 1)
      in [(''day_of_week'', real_of_int (weekday next_date)),
          (''is_weekend'', if weekday next_date \<in> {4, 5} then 1 else 0),
          (''day_of_month'', real_of_int (day_of_month next_date)),
          (''month'', real_of_int (month next_date))]
         @ (if length df > 0 then
              [(''sales_lag_1'', if i = 0 then iloc_back sales 1 else iloc_back predictions 1),
               (''orders_lag_1'', 0),
               (''items_lag_1'', 0),
               (''sales_lag_2'',
                  if length df > 1 \<and> i < 2 then iloc_back sales 2
                  else (if length predictions > 1 then iloc_back predictions 2
                        else historical_mean)),
               (''orders_lag_2'', 0),
               (''items_lag_2'', 0),
               (''sales_lag_3'',
                  if length df > 2 \<and> i < 3 then iloc_back sales 3 else historical_mean),
               (''orders_lag_3'', 0),
               (''items_lag_3'', 0),
               (''sales_rolling_3'', mean (tail 3 sales)),
               (''orders_rolling_3'', 0),
               (''items_rolling_3'', 0),
               (''sales_rolling_7'', mean (tail 7 sales)),
               (''orders_rolling_7'', 0),
               (''items_rolling_7'', 0),
               (''sales_trend'', if length df > 1 then diff_mean sales else 0)]
            else []))"

definition lgbm_X :: "string list \<Rightarrow> sales_row list \<Rightarrow> nat \<Rightarrow> real list \<Rightarrow> real list" where
  \<comment> \<open>\<open>X = np.array([[feature_values.get(f, 0) for f in features]])\<close>\<close>
  "lgbm_X features df i predictions =
     map (\<lambda>f. dict_get (lgbm_feature_values df i predictions) f 0) features"

definition lgbm_step :: "backend \<Rightarrow> string list \<Rightarrow> sales_row list \<Rightarrow> nat \<Rightarrow> real list \<Rightarrow> real"
  where
  \<comment> \<open>the value appended to \<open>predictions\<close> in iteration \<open>i\<close>: \<open>max(0, pred)\<close>, or the
      historical mean when \<open>predict\<close> raises\<close>
  "lgbm_step model features df i predictions =
     (case model (lgbm_X features df i predictions) of
        Some pred \<Rightarrow> max 0 pred
      | None \<Rightarrow> mean (map total_sales df))"

definition lgbm_predictions :: "backend \<Rightarrow> string list \<Rightarrow> sales_row list \<Rightarrow> nat \<Rightarrow> real list"
  where
  \<comment> \<open>the list \<open>predictions\<close> after \<open>days\<close> iterations of the loop\<close>
  "lgbm_predictions model features df days =
     fold (\<lambda>i predictions. predictions @ [lgbm_step model features df i predictions])
          [0..<days] []"

definition forecast_with_lightgbm ::
  "backend \<Rightarrow> string list \<Rightarrow> sales_row list \<Rightarrow> nat \<Rightarrow> (int \<times> real) list" where
  \<comment> \<open>the rows (date, predicted_sales) of the returned frame; \<open>features\<close> is
      \<open>metadata.get('features', [])\<close>.  An empty frame gives an empty result\<close>
  "forecast_with_lightgbm model features df days =
     (if df = [] then []
      else zip (map (\<lambda>i. index_max df + int (i + 1)) [0..<days])
               (lgbm_predictions model features df days))"

section \<open>Daily pipeline: \<open>generate_predictions\<close> (daily_predictions.py)\<close>

text \<open>
  A row of the engineered frame: its day and its numeric columns by name.  (The frame's
  \<open>day\<close> column is not a feature and is kept apart.)
\<close>

record frame_row =
  r_day :: int
  r_cols :: "(string \<times> real) list"

record prediction =
  p_date :: int
  p_day_name :: string
  predicted_sales :: real
  p_confidence :: string

definition calendar_keys :: "string set" where
  \<comment> \<open>the keys that every iteration sets from \<open>next_day\<close>\<close>
  "calendar_keys = {''day_of_week'', ''day_of_month'', ''month'', ''is_weekend''}"

definition gp_features :: "frame_row \<Rightarrow> string list \<Rightarrow> int \<Rightarrow> (string \<times> real) list" where
  \<comment> \<open>the dictionary \<open>features\<close> for \<open>next_day\<close>: the calendar entries, then for every
      \<open>col\<close> of \<open>feature_cols\<close> not yet present \<open>last_row[col] if col in last_row else 0\<close>\<close>
  "gp_features last_row feature_cols next_day =
     fold (\<lambda>col features.
             if col \<in> fst ` set features then features
             else features @ [(col, dict_get (r_cols last_row) col 0)])
          feature_cols
          [(''day_of_week'', real_of_int (weekday next_day)),
           (''day_of_month'', real_of_int (day_of_month next_day)),
           (''month'', real_of_int (month next_day)),
           (''is_weekend'', if weekday next_day \<ge> 5 then 1 else 0)]"

definition gp_predict :: "backend \<Rightarrow> frame_row \<Rightarrow> string list \<Rightarrow> nat \<Rightarrow> error + prediction"
  where
  \<comment> \<open>one iteration \<open>i\<close> of the loop; an exception of \<open>predict\<close> is not caught\<close>
  "gp_predict model last_row feature_cols i =
     (let next_day = r_day last_row + int i in
      case select_columns (gp_features last_row feature_cols next_day) feature_cols of
        Inl e \<Rightarrow> Inl e
      | Inr X_pred \<Rightarrow>
          (case model X_pred of
             None \<Rightarrow> Inl PredictError
           | Some v \<Rightarrow>
               Inr \<lparr>p_date = next_day, p_day_name = weekday_name next_day,
                    predicted_sales = v,
                    p_confidence = (if weekday next_day < 5 then ''high'' else ''medium'')\<rparr>))"

fun gp_loop :: "backend \<Rightarrow> frame_row \<Rightarrow> string list \<Rightarrow> nat list \<Rightarrow> error + prediction list"
  where
  "gp_loop model last_row feature_cols [] = Inr []"
| "gp_loop model last_row feature_cols (i # rest) =
     (case gp_predict model last_row feature_cols i of
        Inl e \<Rightarrow> Inl e
      | Inr p \<Rightarrow>
          (case gp_loop model last_row feature_cols rest of
             Inl e \<Rightarrow> Inl e
           | Inr ps \<Rightarrow> Inr (p # ps)))"

definition generate_predictions ::
  "backend \<Rightarrow> frame_row list \<Rightarrow> string list \<Rightarrow> nat \<Rightarrow> error + prediction list" where
  \<comment> \<open>\<open>df.iloc[-1]\<close> raises \<open>IndexError\<close> on an empty frame; the loop runs over
      \<open>range(1, n_days + 1)\<close>\<close>
  "generate_predictions model df feature_cols n_days =
     (if df = [] then Inl IndexError
      else gp_loop model (last df) feature_cols [1..<n_days + 1])"

section \<open>Regression forecast: \<open>forecast_next_days\<close> (train_model.py)\<close>

text \<open>
  The branch that loads the regression model; \<open>model\<close> is the scaler followed by the
  regressor.  \<open>history\<close> is the \<open>total_sales\<close> column of \<open>history_df\<close>, the buffer that
  each iteration extends by its prediction.
\<close>

definition fnd_row :: "string list \<Rightarrow> int \<Rightarrow> real list \<Rightarrow> (string \<times> real) list" where
  \<comment> \<open>the dictionary \<open>row\<close> for \<open>date\<close>, read from the buffer\<close>
  "fnd_row feature_cols date history =
     [(''day_of_week'', real_of_int (weekday date)),
      (''is_weekend'', if weekday date \<ge> 4 then 1 else 0)]
     @ (if ''lag_1_sales'' \<in> set feature_cols
        then [(''lag_1_sales'', iloc_back history 1)] else [])
     @ (if ''lag_7_sales'' \<in> set feature_cols
        then [(''lag_7_sales'',
               if length history \<ge> 7 then iloc_back history 7 else mean history)]
        else [])
     @ (if ''rolling_7d_sales_avg'' \<in> set feature_cols
        then [(''rolling_7d_sales_avg'', mean (tail 7 history))] else [])
     @ (if ''rolling_30d_sales_avg'' \<in> set feature_cols
        then [(''rolling_30d_sales_avg'', mean (tail 30 history))] else [])"

fun fnd_loop :: "backend \<Rightarrow> string list \<Rightarrow> int list \<Rightarrow> real list \<Rightarrow> error + real list" where
  "fnd_loop model feature_cols [] history = Inr []"
| "fnd_loop model feature_cols (date # dates) history =
     (case select_columns (fnd_row feature_cols date history) feature_cols of
        Inl e \<Rightarrow> Inl e
      | Inr X_new \<Rightarrow>
          (case model X_new of
             None \<Rightarrow> Inl PredictError
           | Some pred \<Rightarrow>
               (case fnd_loop model feature_cols dates (history @ [pred]) of
                  Inl e \<Rightarrow> Inl e
                | Inr forecast_values \<Rightarrow> Inr (pred # forecast_values))))"

definition forecast_next_days ::
  "backend \<Rightarrow> string list \<Rightarrow> sales_row list \<Rightarrow> nat \<Rightarrow> error + (int \<times> real) list" where
  \<comment> \<open>\<open>pd.date_range(start=df.index.max() + 1 day, periods=days)\<close> has no start on an
      empty frame (\<open>ValueError\<close>)\<close>
  "forecast_next_days model feature_cols df days =
     (if df = [] then Inl ValueError
      else let future_dates = map (\<lambda>k. index_max df + 1 + int k) [0..<days] in
        case fnd_loop model feature_cols future_dates (map total_sales df) of
          Inl e \<Rightarrow> Inl e
        | Inr forecast_values \<Rightarrow> Inr (zip future_dates forecast_values))"

section \<open>FeatureBuilder: \<open>load_and_prepare_data\<close> / \<open>load_latest_data\<close>\<close>

text \<open>
  A row of the daily dataset extends the sales row by the two auxiliary metrics.  The
  CSV's fields are numeric; further columns of the file take no part in the features.
\<close>

record daily_record = sales_row +
  orders_count :: real
  items_sold :: real

text \<open>
  A cell of an engineered column: a number, NaN (left by \<open>shift\<close> and by \<open>pct_change\<close>), or
  an infinity (a quotient by zero in \<open>pct_change\<close>).
\<close>

datatype cell = Num real | NaN | PosInf | NegInf

definition shift :: "nat \<Rightarrow> real list \<Rightarrow> cell list" where
  \<comment> \<open>\<open>s.shift(k)\<close>: the first \<open>k\<close> cells are NaN, then the series\<close>
  "shift k xs = replicate (min k (length xs)) NaN @ map Num (take (length xs - k) xs)"

definition rolling_mean :: "nat \<Rightarrow> real list \<Rightarrow> cell list" where
  \<comment> \<open>\<open>s.rolling(w, min_periods=1).mean()\<close>: the mean of the last \<open>w\<close> values up to and
      including the row, of fewer at the start\<close>
  "rolling_mean w xs = map (\<lambda>i. Num (mean (tail w (take (Suc i) xs)))) [0..<length xs]"

definition pct_change :: "nat \<Rightarrow> real list \<Rightarrow> cell list" where
  \<comment> \<open>\<open>s.pct_change(periods=p)\<close>, that is \<open>s / s.shift(p) - 1\<close> in floating point\<close>
  "pct_change p xs =
     map (\<lambda>i. if i < p then NaN
              else let prev = xs ! (i - p); cur = xs ! i
                   in if prev = 0
                      then (if cur = 0 then NaN else if cur > 0 then PosInf else NegInf)
                      else Num (cur / prev - 1))
         [0..<length xs]"

definition fillna0 :: "cell \<Rightarrow> cell" where
  \<comment> \<open>\<open>fillna(0)\<close> on one cell\<close>
  "fillna0 c = (case c of NaN \<Rightarrow> Num 0 | _ \<Rightarrow> c)"

definition str :: "nat \<Rightarrow> string" where
  \<comment> \<open>the decimal digit of a number below 10, for \<open>f'sales_lag_{lag}'\<close>\<close>
  "str n = [''0123456789'' ! n]"

text \<open>A frame, column-wise: the \<open>day\<close> column and the numeric columns by name.\<close>

record frame =
  f_days :: "int list"
  f_columns :: "(string \<times> cell list) list"

definition engineered_columns :: "daily_record list \<Rightarrow> (string \<times> cell list) list" where
  \<comment> \<open>the columns of the sorted frame after the feature engineering, before \<open>dropna\<close>\<close>
  "engineered_columns df =
     (let days = map day df;
          sales = map total_sales df;
          orders = map orders_count df;
          items = map items_sold df
      in [(''total_sales'', map Num sales),
          (''orders_count'', map Num orders),
          (''items_sold'', map Num items),
          (''day_of_week'', map (\<lambda>d. Num (real_of_int (weekday d))) days),
          (''day_of_month'', map (\<lambda>d. Num (real_of_int (day_of_month d))) days),
          (''month'', map (\<lambda>d. Num (real_of_int (month d))) days),
          (''is_weekend'', map (\<lambda>d. Num (if weekday d \<ge> 5 then 1 else 0)) days)]
         @ concat (map (\<lambda>lag.
             [(''sales_lag_'' @ str lag, shift lag sales),
              (''orders_lag_'' @ str lag, shift lag orders),
              (''items_lag_'' @ str lag, shift lag items)]) [1, 2, 3])
         @ concat (map (\<lambda>window.
             [(''sales_rolling_'' @ str window, rolling_mean window sales),
              (''orders_rolling_'' @ str window, rolling_mean window orders),
              (''items_rolling_'' @ str window, rolling_mean window items)]) [3, 7])
         @ [(''sales_trend'', map fillna0 (pct_change 3 sales))])"

definition dropna :: "frame \<Rightarrow> frame" where
  \<comment> \<open>\<open>df.dropna()\<close>: the rows without a NaN cell\<close>
  "dropna fr =
     (let keep = filter (\<lambda>i. \<forall>c \<in> set (f_columns fr). snd c ! i \<noteq> NaN)
                   [0..<length (f_days fr)]
      in \<lparr>f_days = map (\<lambda>i. f_days fr ! i) keep,
          f_columns = map (\<lambda>(name, cs). (name, map (\<lambda>i. cs ! i) keep)) (f_columns fr)\<rparr>)"

definition load_and_prepare_data :: "daily_record list \<Rightarrow> frame" where
  \<comment> \<open>\<open>sort_values('day')\<close>, the feature engineering, \<open>dropna()\<close>; \<open>load_latest_data\<close> of
      daily_predictions.py is the same code\<close>
  "load_and_prepare_data records =
     (let df = sort_key day records
      in dropna \<lparr>f_days = map day df, f_columns = engineered_columns df\<rparr>)"

section \<open>Properties of the ConfidenceEstimator\<close>

lemma sq_dev_nonneg: "0 \<le> sq_dev xs"
  unfolding sq_dev_def by (rule sum_list_nonneg) auto

lemma np_std_nonneg: "0 \<le> np_std xs"
  unfolding np_std_def using sq_dev_nonneg [of xs] by simp

lemma mean_nonneg: "(\<And>x. x \<in> set xs \<Longrightarrow> 0 \<le> x) \<Longrightarrow> 0 \<le> mean xs"
  unfolding mean_def by (simp add: sum_list_nonneg)

lemma ci_margin_nonneg:
  assumes "\<And>x. x \<in> set predictions \<Longrightarrow> 0 \<le> x"
    and "historical_std \<noteq> Some None"
    and "\<And>s. historical_std = Some (Some s) \<Longrightarrow> 0 \<le> s"
  shows "\<exists>m. ci_margin predictions historical_std confidence = Some m \<and> 0 \<le> m"
proof (cases historical_std)
  case None
  have "0 \<le> (if length predictions > 1 then np_std predictions else mean predictions * 0.15)"
    using assms(1) np_std_nonneg [of predictions] mean_nonneg [of predictions] by simp
  then have "0 \<le> (if confidence = 0.95 then 1.96 else 1.645)
      * (if length predictions > 1 then np_std predictions else mean predictions * 0.15)"
    by (intro mult_nonneg_nonneg) simp_all
  then show ?thesis
    unfolding ci_margin_def ci_std_def None Let_def by simp
next
  case (Some s)
  then obtain v where v: "s = Some v"
    using assms(2) by (cases s) auto
  then have "0 \<le> v"
    using assms(3) Some by simp
  then have "0 \<le> (if confidence = 0.95 then 1.96 else 1.645) * v"
    by (intro mult_nonneg_nonneg) simp_all
  then show ?thesis
    unfolding ci_margin_def ci_std_def Some v Let_def by simp
qed

lemma ci_bounds_of_margin:
  assumes "ci_margin predictions historical_std confidence = Some m"
    and "i < length predictions"
  shows "ci_lower predictions historical_std confidence ! i = Some (predictions ! i - m)"
    and "ci_upper predictions historical_std confidence ! i = Some (predictions ! i + m)"
    and "fst (calculate_confidence_interval predictions historical_std confidence) ! i
      = Some (max (predictions ! i - m) 0)"
    and "snd (calculate_confidence_interval predictions historical_std confidence) ! i
      = Some (predictions ! i + m)"
  using assms
  by (simp_all add: calculate_confidence_interval_def ci_lower_def ci_upper_def np_maximum_def)

text \<open>
  C10.  For predictions that are all \<open>\<ge> 0\<close> and a dispersion that is \<open>\<ge> 0\<close> (a given
  \<open>historical_std\<close>, or the one the function derives from the predictions), the
  returned bounds are numbers that enclose every prediction:
  \<open>lower[i] \<le> predictions[i] \<le> upper[i]\<close>.  The precondition on the predictions is needed:
  a prediction below \<open>-margin\<close> gets the clamped lower bound 0, which exceeds its upper
  bound.
\<close>

theorem ci_encloses_nonneg_predictions:
  "((\<forall>x \<in> set predictions. 0 \<le> x) \<and> historical_std \<noteq> Some None
      \<and> (\<forall>s. historical_std = Some (Some s) \<longrightarrow> 0 \<le> s)
      \<longrightarrow> (\<forall>i < length predictions. \<exists>l u.
            fst (calculate_confidence_interval predictions historical_std confidence) ! i = Some l
          \<and> snd (calculate_confidence_interval predictions historical_std confidence) ! i = Some u
          \<and> l \<le> predictions ! i \<and> predictions ! i \<le> u))
   \<and> (\<forall>i < length predictions. \<forall>m.
         ci_margin predictions historical_std confidence = Some m \<and> predictions ! i + m < 0
         \<longrightarrow> (\<exists>l u.
            fst (calculate_confidence_interval predictions historical_std confidence) ! i = Some l
          \<and> snd (calculate_confidence_interval predictions historical_std confidence) ! i = Some u
          \<and> u < l))"
proof (intro conjI impI allI)
  fix i
  assume h: "(\<forall>x \<in> set predictions. 0 \<le> x) \<and> historical_std \<noteq> Some None
      \<and> (\<forall>s. historical_std = Some (Some s) \<longrightarrow> 0 \<le> s)"
    and i: "i < length predictions"
  obtain m where m: "ci_margin predictions historical_std confidence = Some m" "0 \<le> m"
    using h ci_margin_nonneg [of predictions historical_std confidence] by auto
  have p: "0 \<le> predictions ! i"
    using h i by simp
  show "\<exists>l u.
            fst (calculate_confidence_interval predictions historical_std confidence) ! i = Some l
          \<and> snd (calculate_confidence_interval predictions historical_std confidence) ! i = Some u
          \<and> l \<le> predictions ! i \<and> predictions ! i \<le> u"
    using m(2) p by (simp add: ci_bounds_of_margin(3,4) [OF m(1) i])
next
  fix i m
  assume i: "i < length predictions"
    and m: "ci_margin predictions historical_std confidence = Some m \<and> predictions ! i + m < 0"
  then show "\<exists>l u.
            fst (calculate_confidence_interval predictions historical_std confidence) ! i = Some l
          \<and> snd (calculate_confidence_interval predictions historical_std confidence) ! i = Some u
          \<and> u < l"
    by (simp add: ci_bounds_of_margin(3,4) [of predictions historical_std confidence m i]
        less_max_iff_disj)
qed

theorem ci_encloses_nonneg_predictions_witness:
  "fst (calculate_confidence_interval [100, 200] (Some (Some 10)) 0.95) ! 1 = Some (902 / 5)
   \<and> snd (calculate_confidence_interval [100, 200] (Some (Some 10)) 0.95) ! 1 = Some (1098 / 5)
   \<and> fst (calculate_confidence_interval [-30] (Some (Some 10)) 0.95) ! 0 = Some 0
   \<and> snd (calculate_confidence_interval [-30] (Some (Some 10)) 0.95) ! 0 = Some (- 52 / 5)"
proof -
  have h: "(\<forall>x \<in> set [100, 200 :: real]. 0 \<le> x) \<and> Some (Some (10::real)) \<noteq> Some None
      \<and> (\<forall>s. Some (Some (10::real)) = Some (Some s) \<longrightarrow> 0 \<le> s)"
    by simp
  have i: "(1::nat) < length [100, 200 :: real]"
    by simp
  obtain l u where a:
      "fst (calculate_confidence_interval [100, 200] (Some (Some 10)) 0.95) ! 1 = Some l"
      "snd (calculate_confidence_interval [100, 200] (Some (Some 10)) 0.95) ! 1 = Some u"
      "l \<le> [100, 200] ! 1" "[100, 200] ! 1 \<le> u"
    using ci_encloses_nonneg_predictions [of "[100, 200]" "Some (Some 10)" "0.95"] h i by blast
  have j: "(0::nat) < length [-30 :: real]"
    by simp
  have n: "ci_margin [-30] (Some (Some 10)) 0.95 = Some (98 / 5)
      \<and> [-30 :: real] ! 0 + 98 / 5 < 0"
    by (simp add: ci_margin_def ci_std_def)
  obtain l' u' where b:
      "fst (calculate_confidence_interval [-30] (Some (Some 10)) 0.95) ! 0 = Some l'"
      "snd (calculate_confidence_interval [-30] (Some (Some 10)) 0.95) ! 0 = Some u'"
      "u' < l'"
    using ci_encloses_nonneg_predictions [of "[-30]" "Some (Some 10)" "0.95"] n j by blast
  have "l = 902 / 5" "u = 1098 / 5"
    using a(1,2)
    by (simp_all add: calculate_confidence_interval_def ci_lower_def ci_upper_def ci_margin_def
        ci_std_def np_maximum_def)
  moreover have "l' = 0" "u' = - 52 / 5"
    using b(1,2)
    by (simp_all add: calculate_confidence_interval_def ci_lower_def ci_upper_def ci_margin_def
        ci_std_def np_maximum_def)
  ultimately show ?thesis
    using a(1,2) b(1,2) by simp
qed

text \<open>
  C6 (as amended).  For a dispersion that is a number the interval is symmetric around
  every prediction before the clamp and the returned lower bound is \<open>\<ge> 0\<close>; a dispersion
  of 0 gives margin 0, so that the unclamped bounds both equal the prediction, and the
  returned interval collapses to the prediction wherever the prediction is \<open>\<ge> 0\<close>.  For
  a NaN dispersion both returned bounds are NaN.
\<close>

theorem ci_symmetric_clamped_collapse:
  "length (fst (calculate_confidence_interval predictions historical_std confidence))
     = length predictions
   \<and> length (snd (calculate_confidence_interval predictions historical_std confidence))
     = length predictions
   \<and> (\<forall>\<sigma>. ci_std predictions historical_std = Some \<sigma> \<longrightarrow>
        (\<exists>m. ci_margin predictions historical_std confidence = Some m
           \<and> (\<sigma> = 0 \<longrightarrow> m = 0)
           \<and> (\<forall>i < length predictions. \<exists>lo up l.
                 ci_lower predictions historical_std confidence ! i = Some lo
               \<and> ci_upper predictions historical_std confidence ! i = Some up
               \<and> up - predictions ! i = predictions ! i - lo
               \<and> fst (calculate_confidence_interval predictions historical_std confidence) ! i
                   = Some l
               \<and> l = max lo 0 \<and> 0 \<le> l
               \<and> snd (calculate_confidence_interval predictions historical_std confidence) ! i
                   = Some up
               \<and> (\<sigma> = 0 \<longrightarrow> lo = predictions ! i \<and> up = predictions ! i
                     \<and> (0 \<le> predictions ! i \<longrightarrow> l = predictions ! i)))))
   \<and> (ci_std predictions historical_std = None \<longrightarrow>
        (\<forall>i < length predictions.
           fst (calculate_confidence_interval predictions historical_std confidence) ! i = None
         \<and> snd (calculate_confidence_interval predictions historical_std confidence) ! i = None))"
proof (intro conjI allI impI)
  show "length (fst (calculate_confidence_interval predictions historical_std confidence))
     = length predictions"
    by (simp add: calculate_confidence_interval_def ci_lower_def)
  show "length (snd (calculate_confidence_interval predictions historical_std confidence))
     = length predictions"
    by (simp add: calculate_confidence_interval_def ci_upper_def)
next
  fix \<sigma>
  assume s: "ci_std predictions historical_std = Some \<sigma>"
  define m where "m = (if confidence = 0.95 then 1.96 else 1.645) * \<sigma>"
  have m: "ci_margin predictions historical_std confidence = Some m"
    by (simp add: ci_margin_def s m_def)
  have z: "\<sigma> = 0 \<longrightarrow> m = 0"
    by (simp add: m_def)
  have "\<exists>lo up l.
                 ci_lower predictions historical_std confidence ! i = Some lo
               \<and> ci_upper predictions historical_std confidence ! i = Some up
               \<and> up - predictions ! i = predictions ! i - lo
               \<and> fst (calculate_confidence_interval predictions historical_std confidence) ! i
                   = Some l
               \<and> l = max lo 0 \<and> 0 \<le> l
               \<and> snd (calculate_confidence_interval predictions historical_std confidence) ! i
                   = Some up
               \<and> (\<sigma> = 0 \<longrightarrow> lo = predictions ! i \<and> up = predictions ! i
                     \<and> (0 \<le> predictions ! i \<longrightarrow> l = predictions ! i))"
    if i: "i < length predictions" for i
    using z by (simp add: ci_bounds_of_margin [OF m i])
  then show "\<exists>m. ci_margin predictions historical_std confidence = Some m
           \<and> (\<sigma> = 0 \<longrightarrow> m = 0)
           \<and> (\<forall>i < length predictions. \<exists>lo up l.
                 ci_lower predictions historical_std confidence ! i = Some lo
               \<and> ci_upper predictions historical_std confidence ! i = Some up
               \<and> up - predictions ! i = predictions ! i - lo
               \<and> fst (calculate_confidence_interval predictions historical_std confidence) ! i
                   = Some l
               \<and> l = max lo 0 \<and> 0 \<le> l
               \<and> snd (calculate_confidence_interval predictions historical_std confidence) ! i
                   = Some up
               \<and> (\<sigma> = 0 \<longrightarrow> lo = predictions ! i \<and> up = predictions ! i
                     \<and> (0 \<le> predictions ! i \<longrightarrow> l = predictions ! i)))"
    using m z by blast
next
  fix i
  assume "ci_std predictions historical_std = None" and "i < length predictions"
  then show "fst (calculate_confidence_interval predictions historical_std confidence) ! i = None"
    and "snd (calculate_confidence_interval predictions historical_std confidence) ! i = None"
    by (simp_all add: calculate_confidence_interval_def ci_lower_def ci_upper_def ci_margin_def
        np_maximum_def)
qed

theorem ci_symmetric_clamped_collapse_witness:
  "ci_std [250, 250, 250] (Some (Some 0)) = Some 0
   \<and> ci_lower [250, 250, 250] (Some (Some 0)) 0.95 ! 2 = Some 250
   \<and> ci_upper [250, 250, 250] (Some (Some 0)) 0.95 ! 2 = Some 250
   \<and> fst (calculate_confidence_interval [250, 250, 250] (Some (Some 0)) 0.95) ! 2 = Some 250
   \<and> snd (calculate_confidence_interval [250, 250, 250] (Some (Some 0)) 0.95) ! 2 = Some 250
   \<and> fst (calculate_confidence_interval [250] (Some (pd_std [1000])) 0.95) ! 0 = None
   \<and> snd (calculate_confidence_interval [250] (Some (pd_std [1000])) 0.95) ! 0 = None"
proof -
  note t = ci_symmetric_clamped_collapse [of "[250, 250, 250]" "Some (Some 0)" "0.95"]
  note u = ci_symmetric_clamped_collapse [of "[250]" "Some (pd_std [1000])" "0.95"]
  have i: "(2::nat) < length [250, 250, 250 :: real]" and j: "(0::nat) < length [250 :: real]"
    by simp_all
  have d: "ci_std [250, 250, 250] (Some (Some 0)) = Some 0"
    by (simp add: ci_std_def)
  have p: "(0::real) \<le> [250, 250, 250] ! 2"
    by simp
  have n: "ci_std [250] (Some (pd_std [1000])) = None"
    by (simp add: ci_std_def pd_std_def)
  obtain lo up l where a:
      "ci_lower [250, 250, 250] (Some (Some 0)) 0.95 ! 2 = Some lo"
      "ci_upper [250, 250, 250] (Some (Some 0)) 0.95 ! 2 = Some up"
      "fst (calculate_confidence_interval [250, 250, 250] (Some (Some 0)) 0.95) ! 2 = Some l"
      "snd (calculate_confidence_interval [250, 250, 250] (Some (Some 0)) 0.95) ! 2 = Some up"
      "lo = [250, 250, 250] ! 2" "up = [250, 250, 250] ! 2" "l = [250, 250, 250] ! 2"
    using t d i p by blast
  have b: "fst (calculate_confidence_interval [250] (Some (pd_std [1000])) 0.95) ! 0 = None"
      "snd (calculate_confidence_interval [250] (Some (pd_std [1000])) 0.95) ! 0 = None"
    using u n j by blast+
  show ?thesis
    using d a b by simp
qed

text \<open>
  The returned interval of a negative prediction does not collapse: with dispersion 0
  the prediction \<open>-5\<close> gets the bounds \<open>(0, -5)\<close>.  And the lower bound is not \<open>\<ge> 0\<close> for
  every dispersion: the standard deviation of a one-row history is NaN, and with it both
  bounds are NaN.
\<close>

theorem ci_collapse_counterexample:
  "ci_std [-5] (Some (Some 0)) = Some 0
   \<and> calculate_confidence_interval [-5] (Some (Some 0)) 0.95 = ([Some 0], [Some (- 5)])
   \<and> pd_std [1000] = None
   \<and> calculate_confidence_interval [250] (Some (pd_std [1000])) 0.95 = ([None], [None])"
  by (simp add: calculate_confidence_interval_def ci_lower_def ci_upper_def ci_margin_def
      ci_std_def np_maximum_def pd_std_def)

section \<open>Properties of the AnomalyDetector\<close>

lemma sq_dev_example: "sq_dev [100, 100, 100, 100, 130, 200] = 24250 / 3"
  by (simp add: sq_dev_def mean_def power2_eq_square)

lemma sqrt_sample_bound: "40 \<le> sqrt (4850 / 3)"
  by (rule real_le_rsqrt) simp

lemma sqrt_population_bound: "sqrt (24250 / 18) < 39"
  by (rule real_less_lsqrt) simp_all

lemma np_std_example: "np_std [100, 100, 100, 100, 130, 200] < 39"
  using sqrt_population_bound by (simp add: np_std_def sq_dev_example)

lemma population_z_example: "\<bar>(200 - mean [100, 100, 100, 100, 130, 200]) / np_std [100, 100, 100, 100, 130, 200]\<bar> > 2"
proof -
  have p: "0 < np_std [100, 100, 100, 100, 130, 200]"
    by (simp add: np_std_def sq_dev_example)
  have "2 * np_std [100, 100, 100, 100, 130, 200] < 235 / 3"
    using np_std_example by simp
  then have "2 < (235 / 3) / np_std [100, 100, 100, 100, 130, 200]"
    using p by (simp add: pos_less_divide_eq)
  moreover have "200 - mean [100, 100, 100, 100, 130, 200] = 235 / 3"
    by (simp add: mean_def)
  ultimately have "2 < (200 - mean [100, 100, 100, 100, 130, 200]) / np_std [100, 100, 100, 100, 130, 200]"
    by (simp only:)
  then show ?thesis
    by linarith
qed

lemma detect_anomalies_below:
  assumes "pd_std (map total_sales df) = Some s" and "0 < s"
    and "\<forall>r \<in> set df. \<bar>total_sales r - mean (map total_sales df)\<bar> \<le> T * s"
  shows "detect_anomalies df T = []"
proof -
  have "\<not> T < \<bar>(total_sales r - mean (map total_sales df)) / s\<bar>" if "r \<in> set df" for r
  proof -
    have "\<bar>total_sales r - mean (map total_sales df)\<bar> / s \<le> T"
      using assms that by (simp add: pos_divide_le_eq)
    then show ?thesis using assms(2) by simp
  qed
  then show ?thesis
    using assms(1,2) by (auto simp: detect_anomalies_def Let_def filter_empty_conv)
qed

lemma sample_z_example: "detect_anomalies
     [\<lparr>day = 0, total_sales = 100\<rparr>, \<lparr>day = 1, total_sales = 100\<rparr>,
      \<lparr>day = 2, total_sales = 100\<rparr>, \<lparr>day = 3, total_sales = 100\<rparr>,
      \<lparr>day = 4, total_sales = 130\<rparr>, \<lparr>day = 5, total_sales = 200\<rparr>] 2 = []"
proof (rule detect_anomalies_below [where s = "sqrt (4850 / 3)"])
  show "pd_std (map total_sales
     [\<lparr>day = 0, total_sales = 100\<rparr>, \<lparr>day = 1, total_sales = 100\<rparr>,
      \<lparr>day = 2, total_sales = 100\<rparr>, \<lparr>day = 3, total_sales = 100\<rparr>,
      \<lparr>day = 4, total_sales = 130\<rparr>, \<lparr>day = 5, total_sales = 200\<rparr>]) = Some (sqrt (4850 / 3))"
    by (simp add: pd_std_def sq_dev_example)
  show "0 < sqrt (4850 / 3 :: real)"
    by simp
  show "\<forall>r \<in> set [\<lparr>day = 0, total_sales = 100\<rparr>, \<lparr>day = 1, total_sales = 100\<rparr>,
      \<lparr>day = 2, total_sales = 100\<rparr>, \<lparr>day = 3, total_sales = 100\<rparr>,
      \<lparr>day = 4, total_sales = 130\<rparr>, \<lparr>day = 5, total_sales = 200\<rparr>].
      \<bar>total_sales r - mean (map total_sales [\<lparr>day = 0, total_sales = 100\<rparr>, \<lparr>day = 1, total_sales = 100\<rparr>,
      \<lparr>day = 2, total_sales = 100\<rparr>, \<lparr>day = 3, total_sales = 100\<rparr>,
      \<lparr>day = 4, total_sales = 130\<rparr>, \<lparr>day = 5, total_sales = 200\<rparr>])\<bar> \<le> 2 * sqrt (4850 / 3)"
    using sqrt_sample_bound by (simp add: mean_def)
qed

text \<open>
  C5 (as amended).  The detector computes the mean and the sample standard deviation
  \<open>\<sigma>\<close> (divisor \<open>n - 1\<close>) over the full series.  A row is returned if and only if
  \<open>\<bar>(value - mean) / \<sigma>\<bar> > T\<close>, with that quotient as its z-score; its direction is
  spike when \<open>z > 0\<close> and drop otherwise.  When \<open>\<sigma> = 0\<close>, or \<open>\<sigma>\<close> is undefined
  because the series has fewer than two rows, the result is empty.
\<close>

theorem detect_anomalies_flags:
  "(pd_std (map total_sales df) = None \<longrightarrow> detect_anomalies df T = [])
   \<and> (pd_std (map total_sales df) = Some 0 \<longrightarrow> detect_anomalies df T = [])
   \<and> (\<forall>\<sigma>. pd_std (map total_sales df) = Some \<sigma> \<and> \<sigma> \<noteq> 0 \<longrightarrow>
         detect_anomalies df T
           = map (\<lambda>r. \<lparr>a_day = day r, a_value = total_sales r,
                       z_score = (total_sales r - mean (map total_sales df)) / \<sigma>\<rparr>)
               (filter (\<lambda>r. T < \<bar>(total_sales r - mean (map total_sales df)) / \<sigma>\<bar>) df)
       \<and> (\<forall>a \<in> set (detect_anomalies df T).
             anomaly_direction a = (if 0 < z_score a then Spike else Drop)))"
proof (intro conjI impI allI)
  assume "pd_std (map total_sales df) = None"
  then show "detect_anomalies df T = []"
    by (simp add: detect_anomalies_def)
next
  assume "pd_std (map total_sales df) = Some 0"
  then show "detect_anomalies df T = []"
    by (simp add: detect_anomalies_def)
next
  fix \<sigma>
  assume h: "pd_std (map total_sales df) = Some \<sigma> \<and> \<sigma> \<noteq> 0"
  then have "df \<noteq> []"
    by (auto simp: pd_std_def)
  with h show "detect_anomalies df T
           = map (\<lambda>r. \<lparr>a_day = day r, a_value = total_sales r,
                       z_score = (total_sales r - mean (map total_sales df)) / \<sigma>\<rparr>)
               (filter (\<lambda>r. T < \<bar>(total_sales r - mean (map total_sales df)) / \<sigma>\<bar>) df)"
    by (simp add: detect_anomalies_def Let_def filter_map comp_def)
next
  fix \<sigma>
  show "\<forall>a \<in> set (detect_anomalies df T).
             anomaly_direction a = (if 0 < z_score a then Spike else Drop)"
    by (simp add: anomaly_direction_def)
qed

lemma sqrt_90000: "sqrt 90000 = 300"
  using real_sqrt_abs [of 300] by simp

theorem detect_anomalies_flags_witness:
  "detect_anomalies [\<lparr>day = 0, total_sales = 100\<rparr>, \<lparr>day = 1, total_sales = 400\<rparr>,
        \<lparr>day = 2, total_sales = 700\<rparr>] (1 / 2)
     = [\<lparr>a_day = 0, a_value = 100, z_score = - 1\<rparr>, \<lparr>a_day = 2, a_value = 700, z_score = 1\<rparr>]"
proof -
  have s: "pd_std (map total_sales [\<lparr>day = 0, total_sales = 100\<rparr>,
      \<lparr>day = 1, total_sales = 400\<rparr>, \<lparr>day = 2, total_sales = 700\<rparr>]) = Some 300 \<and> (300::real) \<noteq> 0"
    by (simp add: pd_std_def sq_dev_def mean_def sqrt_90000)
  have m: "mean [100, 400, 700] = 400"
    by (simp add: mean_def)
  from detect_anomalies_flags [of "[\<lparr>day = 0, total_sales = 100\<rparr>,
      \<lparr>day = 1, total_sales = 400\<rparr>, \<lparr>day = 2, total_sales = 700\<rparr>]" "1 / 2"] s
  have "detect_anomalies [\<lparr>day = 0, total_sales = 100\<rparr>, \<lparr>day = 1, total_sales = 400\<rparr>,
        \<lparr>day = 2, total_sales = 700\<rparr>] (1 / 2)
     = map (\<lambda>r. \<lparr>a_day = day r, a_value = total_sales r,
                       z_score = (total_sales r - mean (map total_sales [\<lparr>day = 0, total_sales = 100\<rparr>,
      \<lparr>day = 1, total_sales = 400\<rparr>, \<lparr>day = 2, total_sales = 700\<rparr>])) / 300\<rparr>)
               (filter (\<lambda>r. 1 / 2 < \<bar>(total_sales r - mean (map total_sales [\<lparr>day = 0, total_sales = 100\<rparr>,
      \<lparr>day = 1, total_sales = 400\<rparr>, \<lparr>day = 2, total_sales = 700\<rparr>])) / 300\<bar>) [\<lparr>day = 0, total_sales = 100\<rparr>,
      \<lparr>day = 1, total_sales = 400\<rparr>, \<lparr>day = 2, total_sales = 700\<rparr>])"
    by blast
  then show ?thesis
    by (simp add: m)
qed

text \<open>
  With the population standard deviation (divisor \<open>n\<close>) the last of these six days has
  \<open>\<bar>z\<bar> > 2\<close>, yet the detector, which divides by the sample standard deviation,
  returns nothing at threshold 2.
\<close>

theorem anomaly_population_std_counterexample:
  "2 < \<bar>(200 - mean [100, 100, 100, 100, 130, 200]) / np_std [100, 100, 100, 100, 130, 200]\<bar>
   \<and> detect_anomalies
     [\<lparr>day = 0, total_sales = 100\<rparr>, \<lparr>day = 1, total_sales = 100\<rparr>,
      \<lparr>day = 2, total_sales = 100\<rparr>, \<lparr>day = 3, total_sales = 100\<rparr>,
      \<lparr>day = 4, total_sales = 130\<rparr>, \<lparr>day = 5, total_sales = 200\<rparr>] 2 = []"
  using population_z_example sample_z_example by simp

section \<open>Properties of the SeasonalAnalyzer\<close>












section \<open>Properties of the ModelSelector and of the validation splits\<close>

lemma train_regression_best_snoc:
  "train_regression_best (xs @ [x]) =
     (case train_regression_best xs of
        None \<Rightarrow> Some x
      | Some b \<Rightarrow> if snd x < snd b then Some x else Some b)"
  by (cases x) (auto simp: train_regression_best_def split: option.splits)

lemma train_regression_best_min:
  "scored \<noteq> [] \<Longrightarrow>
   \<exists>i < length scored. train_regression_best scored = Some (scored ! i)
     \<and> (\<forall>j < length scored. snd (scored ! i) \<le> snd (scored ! j))
     \<and> (\<forall>j < i. snd (scored ! i) < snd (scored ! j))"
proof (induction scored rule: rev_induct)
  case Nil
  then show ?case by simp
next
  case (snoc x xs)
  show ?case
  proof (cases "xs = []")
    case True
    then show ?thesis
      by (simp add: train_regression_best_def split: prod.splits)
  next
    case False
    then obtain i where i: "i < length xs" "train_regression_best xs = Some (xs ! i)"
        "\<forall>j < length xs. snd (xs ! i) \<le> snd (xs ! j)" "\<forall>j < i. snd (xs ! i) < snd (xs ! j)"
      using snoc.IH by blast
    show ?thesis
    proof (cases "snd x < snd (xs ! i)")
      case True
      have "train_regression_best (xs @ [x]) = Some ((xs @ [x]) ! length xs)"
        using True i(2) by (simp add: train_regression_best_snoc)
      moreover have "\<forall>j < length (xs @ [x]). snd ((xs @ [x]) ! length xs) \<le> snd ((xs @ [x]) ! j)"
        using True i(3) by (auto simp: nth_append less_Suc_eq)
      moreover have "\<forall>j < length xs. snd ((xs @ [x]) ! length xs) < snd ((xs @ [x]) ! j)"
        using True i(3) by (auto simp: nth_append)
      ultimately show ?thesis
        by (intro exI [of _ "length xs"]) simp
    next
      case False
      have "train_regression_best (xs @ [x]) = Some ((xs @ [x]) ! i)"
        using False i(1,2) by (simp add: train_regression_best_snoc nth_append)
      moreover have "\<forall>j < length (xs @ [x]). snd ((xs @ [x]) ! i) \<le> snd ((xs @ [x]) ! j)"
        using False i(1,3) by (auto simp: nth_append less_Suc_eq)
      moreover have "\<forall>j < i. snd ((xs @ [x]) ! i) < snd ((xs @ [x]) ! j)"
        using i(1,4) by (auto simp: nth_append)
      ultimately show ?thesis
        using i(1) by (intro exI [of _ i]) simp
    qed
  qed
qed

lemma main_best_min:
  assumes "results \<noteq> []"
  shows "\<exists>r \<in> set results. main_best results = Some (m_name r)
     \<and> (\<forall>q \<in> set results. mape r \<le> mape q)"
proof -
  obtain a rest where s: "sort_key mape results = a # rest"
    using assms by (cases "sort_key mape results") (auto dest: arg_cong [where f = length])
  have "sorted (map mape (a # rest))"
    using sorted_sort_key [of mape results] s by simp
  then have m: "\<forall>q \<in> set (a # rest). mape a \<le> mape q"
    by auto
  have e: "set (a # rest) = set results"
    using set_sort [of mape results] s by simp
  then have "a \<in> set results"
    by auto
  moreover have "main_best results = Some (m_name a)"
    using assms s by (simp add: main_best_def)
  ultimately show ?thesis
    using m e by blast
qed





text \<open>
  C8 (as amended).  Among its candidates \<open>train_regression\<close> picks one of minimum MAE, and
  of several with that MAE the earliest registered.  The model comparison of \<open>main\<close>
  reports as best a backend of minimum MAPE.
\<close>

theorem selection_by_minimum_error:
  "(scored \<noteq> [] \<longrightarrow>
      (\<exists>i < length scored. train_regression_best scored = Some (scored ! i)
         \<and> (\<forall>j < length scored. snd (scored ! i) \<le> snd (scored ! j))
         \<and> (\<forall>j < i. snd (scored ! i) < snd (scored ! j))))
   \<and> (results \<noteq> [] \<longrightarrow>
      (\<exists>r \<in> set results. main_best results = Some (m_name r)
         \<and> (\<forall>q \<in> set results. mape r \<le> mape q)))"
  using train_regression_best_min [of scored] main_best_min [of results] by blast

theorem selection_by_minimum_error_witness:
  "train_regression_best [(''Ridge'', 80), (''RandomForest'', 50), (''GradientBoosting'', 50)]
     = Some (''RandomForest'', 50)
   \<and> main_best [\<lparr>m_name = ''ARIMA'', mae = 50, mape = 12\<rparr>,
                 \<lparr>m_name = ''Regression'', mae = 80, mape = 30\<rparr>] = Some ''ARIMA''"
proof -
  have n: "[(''Ridge'', 80 :: real), (''RandomForest'', 50), (''GradientBoosting'', 50)] \<noteq> []"
    and m: "[\<lparr>m_name = ''ARIMA'', mae = 50, mape = 12\<rparr>,
             \<lparr>m_name = ''Regression'', mae = 80, mape = 30\<rparr>] \<noteq> []"
    by simp_all
  obtain i where i: "i < length [(''Ridge'', 80 :: real), (''RandomForest'', 50), (''GradientBoosting'', 50)]"
      "train_regression_best [(''Ridge'', 80), (''RandomForest'', 50), (''GradientBoosting'', 50)]
         = Some ([(''Ridge'', 80), (''RandomForest'', 50), (''GradientBoosting'', 50)] ! i)"
      "\<forall>j < length [(''Ridge'', 80 :: real), (''RandomForest'', 50), (''GradientBoosting'', 50)].
          snd ([(''Ridge'', 80 :: real), (''RandomForest'', 50), (''GradientBoosting'', 50)] ! i)
            \<le> snd ([(''Ridge'', 80), (''RandomForest'', 50), (''GradientBoosting'', 50)] ! j)"
      "\<forall>j < i. snd ([(''Ridge'', 80 :: real), (''RandomForest'', 50), (''GradientBoosting'', 50)] ! i)
            < snd ([(''Ridge'', 80), (''RandomForest'', 50), (''GradientBoosting'', 50)] ! j)"
    using selection_by_minimum_error
      [of "[(''Ridge'', 80), (''RandomForest'', 50), (''GradientBoosting'', 50)]" "[]"] n
    by blast
  have "i = 0 \<or> i = 1 \<or> i = 2"
    using i(1) by auto
  moreover have "i \<noteq> 0"
    using i(3) [rule_format, of 1] by (cases "i = 0") simp_all
  moreover have "i \<noteq> 2"
    using i(4) [rule_format, of 1] by (cases "i = 2") simp_all
  ultimately have "i = 1"
    by blast
  then have a: "train_regression_best
      [(''Ridge'', 80), (''RandomForest'', 50), (''GradientBoosting'', 50)] = Some (''RandomForest'', 50)"
    using i(2) by simp
  obtain r where r: "r \<in> set [\<lparr>m_name = ''ARIMA'', mae = 50, mape = 12\<rparr>,
             \<lparr>m_name = ''Regression'', mae = 80, mape = 30\<rparr>]"
      "main_best [\<lparr>m_name = ''ARIMA'', mae = 50, mape = 12\<rparr>,
             \<lparr>m_name = ''Regression'', mae = 80, mape = 30\<rparr>] = Some (m_name r)"
      "\<forall>q \<in> set [\<lparr>m_name = ''ARIMA'', mae = 50, mape = 12\<rparr>,
             \<lparr>m_name = ''Regression'', mae = 80, mape = 30\<rparr>]. mape r \<le> mape q"
    using selection_by_minimum_error [of "[]" "[\<lparr>m_name = ''ARIMA'', mae = 50, mape = 12\<rparr>,
             \<lparr>m_name = ''Regression'', mae = 80, mape = 30\<rparr>]"] m
    by blast
  have "r = \<lparr>m_name = ''ARIMA'', mae = 50, mape = 12\<rparr>"
    using r(1,3) by auto
  then show ?thesis
    using a r(2) by simp
qed

text \<open>
  \<open>main\<close> does not select by MAE: of two backends with MAE 80 and 50 it reports the MAE-80
  one when that one has the lower MAPE.
\<close>

theorem main_best_counterexample:
  "main_best [\<lparr>m_name = ''ARIMA'', mae = 80, mape = 10\<rparr>,
              \<lparr>m_name = ''Regression'', mae = 50, mape = 20\<rparr>] = Some ''ARIMA''"
  by (simp add: main_best_def)





section \<open>Properties of the forecasters\<close>

lemma lgbm_predictions_Suc:
  "lgbm_predictions model features df (Suc n)
     = lgbm_predictions model features df n
       @ [lgbm_step model features df n (lgbm_predictions model features df n)]"
  by (simp add: lgbm_predictions_def)

lemma lgbm_predictions_0: "lgbm_predictions model features df 0 = []"
  by (simp add: lgbm_predictions_def)

lemma length_lgbm_predictions: "length (lgbm_predictions model features df n) = n"
  by (induction n) (simp_all add: lgbm_predictions_0 lgbm_predictions_Suc)

lemma take_lgbm_predictions:
  "i \<le> n \<Longrightarrow> take i (lgbm_predictions model features df n) = lgbm_predictions model features df i"
proof (induction n)
  case 0
  then show ?case by (simp add: lgbm_predictions_0)
next
  case (Suc n)
  show ?case
  proof (cases "i = Suc n")
    case True
    then show ?thesis
      using length_lgbm_predictions [of model features df "Suc n"] by simp
  next
    case False
    then have "i \<le> n" using Suc.prems by simp
    then show ?thesis
      using Suc.IH by (simp add: lgbm_predictions_Suc length_lgbm_predictions)
  qed
qed

lemma nth_lgbm_predictions:
  assumes "i < n"
  shows "lgbm_predictions model features df n ! i
    = lgbm_step model features df i (take i (lgbm_predictions model features df n))"
proof -
  have "lgbm_predictions model features df n ! i
      = take (Suc i) (lgbm_predictions model features df n) ! i"
    by simp
  also have "\<dots> = lgbm_predictions model features df (Suc i) ! i"
    using assms by (simp add: take_lgbm_predictions)
  also have "\<dots> = lgbm_step model features df i (lgbm_predictions model features df i)"
    by (simp add: lgbm_predictions_Suc nth_append length_lgbm_predictions)
  finally show ?thesis
    using assms by (simp add: take_lgbm_predictions)
qed

lemma lgbm_lag_1:
  assumes "df \<noteq> []"
  shows "dict_get (lgbm_feature_values df i predictions) ''sales_lag_1'' 0
    = (if i = 0 then iloc_back (map total_sales df) 1 else iloc_back predictions 1)"
  using assms by (simp add: lgbm_feature_values_def dict_get_def Let_def)

lemma lgbm_rolling:
  assumes "df \<noteq> []"
  shows "dict_get (lgbm_feature_values df i predictions) ''sales_rolling_3'' 0
      = mean (tail 3 (map total_sales df))"
    and "dict_get (lgbm_feature_values df i predictions) ''sales_rolling_7'' 0
      = mean (tail 7 (map total_sales df))"
  using assms by (simp_all add: lgbm_feature_values_def dict_get_def Let_def)

lemma lgbm_step_nonneg:
  assumes "0 \<le> mean (map total_sales df) \<or> (\<forall>x. model x \<noteq> None)"
  shows "0 \<le> lgbm_step model features df i predictions"
proof (cases "model (lgbm_X features df i predictions)")
  case None
  then have "0 \<le> mean (map total_sales df)"
    using assms by blast
  then show ?thesis
    using None by (simp add: lgbm_step_def)
next
  case (Some pred)
  then show ?thesis
    by (simp add: lgbm_step_def)
qed

lemma index_max_sorted:
  assumes "df \<noteq> []" and "sorted (map day df)"
  shows "index_max df = day (last df)"
proof -
  have "day (last df) \<in> set (map day df)"
    using assms(1) by simp
  moreover have "\<forall>d \<in> set (map day df). d \<le> day (last df)"
  proof
    fix d
    assume "d \<in> set (map day df)"
    then obtain k where k: "k < length df" "d = map day df ! k"
      by (auto simp: in_set_conv_nth)
    have "map day df ! k \<le> map day df ! (length df - 1)"
      using assms k(1) by (intro sorted_nth_mono) auto
    then show "d \<le> day (last df)"
      using assms(1) k by (simp add: last_conv_nth)
  qed
  ultimately show ?thesis
    unfolding index_max_def by (intro Max_eqI) auto
qed

lemma gp_features_keys:
  "fst ` set (fold (\<lambda>col features.
             if col \<in> fst ` set features then features
             else features @ [(col, dict_get cols col 0)]) feature_cols init)
     = fst ` set init \<union> set feature_cols"
  by (induction feature_cols arbitrary: init) auto

lemma gp_features_map_of:
  "map_of (fold (\<lambda>col features.
             if col \<in> fst ` set features then features
             else features @ [(col, dict_get cols col 0)]) feature_cols init) c
     = (if c \<in> fst ` set init then map_of init c
        else if c \<in> set feature_cols then Some (dict_get cols c 0) else None)"
proof (induction feature_cols arbitrary: init)
  case Nil
  show ?case
    by (auto simp: map_of_eq_None_iff)
next
  case (Cons a feature_cols)
  show ?case
  proof (cases "a \<in> fst ` set init")
    case True
    then show ?thesis
      using Cons.IH [of init] by auto
  next
    case False
    have m: "map_of (init @ [(a, dict_get cols a 0)]) c
        = (if c \<in> fst ` set init then map_of init c
           else if c = a then Some (dict_get cols a 0) else None)"
    proof (cases "map_of init c")
      case None
      then have "c \<notin> fst ` set init"
        by (simp add: map_of_eq_None_iff)
      then show ?thesis
        using None by (simp add: map_add_def)
    next
      case (Some y)
      then have "c \<in> fst ` set init"
        by (metis map_of_eq_None_iff option.distinct(1))
      then show ?thesis
        using Some by (simp add: map_add_def)
    qed
    show ?thesis
      using False m Cons.IH [of "init @ [(a, dict_get cols a 0)]"]
      by auto
  qed
qed

lemma gp_features_dom:
  "fst ` set (gp_features last_row feature_cols next_day) = calendar_keys \<union> set feature_cols"
  unfolding gp_features_def gp_features_keys calendar_keys_def by simp

lemma gp_features_column:
  assumes "c \<in> set feature_cols" and "c \<notin> calendar_keys"
  shows "dict_get (gp_features last_row feature_cols next_day) c 0
    = dict_get (r_cols last_row) c 0"
proof -
  have "c \<notin> fst ` set [(''day_of_week'', real_of_int (weekday next_day)),
           (''day_of_month'', real_of_int (day_of_month next_day)),
           (''month'', real_of_int (month next_day)),
           (''is_weekend'', if weekday next_day \<ge> 5 then 1 else 0 :: real)]"
    using assms(2) by (simp add: calendar_keys_def)
  then have "map_of (gp_features last_row feature_cols next_day) c
      = Some (dict_get (r_cols last_row) c 0)"
    using assms(1) unfolding gp_features_def gp_features_map_of by simp
  then show ?thesis
    by (simp add: dict_get_def)
qed

lemma gp_select_columns:
  "select_columns (gp_features last_row feature_cols next_day) feature_cols
     = Inr (map (\<lambda>c. dict_get (gp_features last_row feature_cols next_day) c 0) feature_cols)"
  by (simp add: select_columns_def gp_features_dom)

lemma gp_predict_cases:
  "gp_predict model last_row feature_cols i
     = (case model (map (\<lambda>c. dict_get (gp_features last_row feature_cols
                                   (r_day last_row + int i)) c 0) feature_cols) of
          None \<Rightarrow> Inl PredictError
        | Some v \<Rightarrow>
            Inr \<lparr>p_date = r_day last_row + int i,
                 p_day_name = weekday_name (r_day last_row + int i),
                 predicted_sales = v,
                 p_confidence = (if weekday (r_day last_row + int i) < 5
                                 then ''high'' else ''medium'')\<rparr>)"
  by (simp add: gp_predict_def Let_def gp_select_columns)

lemma gp_loop_Inr:
  "gp_loop model last_row feature_cols is = Inr ps \<Longrightarrow>
   length ps = length is
   \<and> (\<forall>k < length is. gp_predict model last_row feature_cols (is ! k) = Inr (ps ! k))"
proof (induction "is" arbitrary: ps)
  case Nil
  then show ?case by simp
next
  case (Cons i rest)
  then obtain p ps' where p: "gp_predict model last_row feature_cols i = Inr p"
      "gp_loop model last_row feature_cols rest = Inr ps'" "ps = p # ps'"
    by (auto split: sum.splits)
  show ?case
    using Cons.IH [OF p(2)] p(1,3) by (auto simp: nth_Cons split: nat.splits)
qed

lemma gp_loop_not_KeyError:
  "gp_loop model last_row feature_cols is \<noteq> Inl KeyError"
proof (induction "is")
  case Nil
  show ?case by simp
next
  case (Cons i rest)
  then show ?case
    by (auto simp: gp_predict_cases split: sum.splits option.splits)
qed

lemma gp_loop_total:
  assumes "\<forall>x. model x \<noteq> None"
  shows "\<exists>ps. gp_loop model last_row feature_cols is = Inr ps"
proof (induction "is")
  case Nil
  show ?case by simp
next
  case (Cons i rest)
  then obtain ps where ps: "gp_loop model last_row feature_cols rest = Inr ps"
    by blast
  obtain v where "model (map (\<lambda>c. dict_get (gp_features last_row feature_cols
                                   (r_day last_row + int i)) c 0) feature_cols) = Some v"
    using assms by (meson option.exhaust)
  then show ?case
    using ps by (simp add: gp_predict_cases)
qed

lemma fnd_loop_Inr:
  "fnd_loop model feature_cols dates history = Inr ps \<Longrightarrow>
   length ps = length dates
   \<and> (\<forall>i < length dates.
        \<exists>X. select_columns (fnd_row feature_cols (dates ! i) (history @ take i ps)) feature_cols
              = Inr X
          \<and> model X = Some (ps ! i))"
proof (induction dates arbitrary: history ps)
  case Nil
  then show ?case by simp
next
  case (Cons date dates)
  then obtain X pred ps' where s:
      "select_columns (fnd_row feature_cols date history) feature_cols = Inr X"
      "model X = Some pred"
      "fnd_loop model feature_cols dates (history @ [pred]) = Inr ps'"
      "ps = pred # ps'"
    by (auto split: sum.splits option.splits)
  have ih: "length ps' = length dates"
    "\<forall>i < length dates.
        \<exists>X. select_columns (fnd_row feature_cols (dates ! i) ((history @ [pred]) @ take i ps'))
               feature_cols = Inr X
          \<and> model X = Some (ps' ! i)"
    using Cons.IH [OF s(3)] by simp_all
  have "\<exists>X. select_columns (fnd_row feature_cols ((date # dates) ! i) (history @ take i ps))
               feature_cols = Inr X
          \<and> model X = Some (ps ! i)" if "i < length (date # dates)" for i
  proof (cases i)
    case 0
    then show ?thesis using s by simp
  next
    case (Suc j)
    then have "j < length dates" using that by simp
    then show ?thesis
      using ih(2) Suc s(4) by simp
  qed
  then show ?case
    using ih(1) s(4) by simp
qed

lemma fnd_lag_1:
  assumes "''lag_1_sales'' \<in> set feature_cols"
  shows "dict_get (fnd_row feature_cols date history) ''lag_1_sales'' 0 = iloc_back history 1"
  using assms by (simp add: fnd_row_def dict_get_def)

lemma fnd_rolling_7:
  assumes "''rolling_7d_sales_avg'' \<in> set feature_cols"
  shows "dict_get (fnd_row feature_cols date history) ''rolling_7d_sales_avg'' 0
    = mean (tail 7 history)"
  using assms by (simp add: fnd_row_def dict_get_def)

lemma iloc_back_take:
  assumes "0 < i" and "i \<le> length ps"
  shows "iloc_back (take i ps) 1 = ps ! (i - 1)"
  using assms by (simp add: iloc_back_def min_def)

lemma iloc_back_append_take:
  assumes "0 < i" and "i \<le> length ps"
  shows "iloc_back (h @ take i ps) 1 = ps ! (i - 1)"
proof -
  have "length (h @ take i ps) - 1 = length h + (i - 1)"
    using assms by simp
  then have "iloc_back (h @ take i ps) 1 = (h @ take i ps) ! (length h + (i - 1))"
    by (simp add: iloc_back_def)
  also have "\<dots> = take i ps ! (i - 1)"
    by (rule nth_append_length_plus)
  finally show ?thesis
    using assms by simp
qed

lemma dates_increasing: "sorted_wrt (<) (map (\<lambda>k. c + 1 + int k) [0..<H])"
  by (simp add: sorted_wrt_iff_nth_less)

lemma forecast_with_lightgbm_dates:
  assumes "df \<noteq> []"
  shows "length (forecast_with_lightgbm model features df H) = H"
    and "map fst (forecast_with_lightgbm model features df H)
      = map (\<lambda>k. index_max df + 1 + int k) [0..<H]"
    and "map snd (forecast_with_lightgbm model features df H)
      = lgbm_predictions model features df H"
proof -
  have e: "forecast_with_lightgbm model features df H
      = zip (map (\<lambda>k. index_max df + 1 + int k) [0..<H]) (lgbm_predictions model features df H)"
    using assms by (simp add: forecast_with_lightgbm_def add.commute add.left_commute)
  show "length (forecast_with_lightgbm model features df H) = H"
    by (simp add: e length_lgbm_predictions)
  show "map fst (forecast_with_lightgbm model features df H)
      = map (\<lambda>k. index_max df + 1 + int k) [0..<H]"
    unfolding e by (rule map_fst_zip) (simp add: length_lgbm_predictions)
  show "map snd (forecast_with_lightgbm model features df H)
      = lgbm_predictions model features df H"
    unfolding e by (rule map_snd_zip) (simp add: length_lgbm_predictions)
qed

lemma forecast_with_lightgbm_value:
  assumes "df \<noteq> []" and "k < H"
  shows "snd (forecast_with_lightgbm model features df H ! k)
    = lgbm_predictions model features df H ! k"
proof -
  have "snd (forecast_with_lightgbm model features df H ! k)
      = map snd (forecast_with_lightgbm model features df H) ! k"
    using assms forecast_with_lightgbm_dates(1) [OF assms(1), of model features H] by simp
  then show ?thesis
    by (simp add: forecast_with_lightgbm_dates(3) [OF assms(1)])
qed

lemma generate_predictions_Inr:
  assumes "fr \<noteq> []" and "generate_predictions model fr feature_cols H = Inr ps"
  shows "length ps = H"
    and "\<forall>k < H. gp_predict model (last fr) feature_cols (Suc k) = Inr (ps ! k)"
proof -
  have l: "gp_loop model (last fr) feature_cols [1..<H + 1] = Inr ps"
    using assms by (simp add: generate_predictions_def)
  have len: "length [1..<H + 1] = H"
    by simp
  have nth: "[1..<H + 1] ! k = Suc k" if "k < H" for k
    using that by (simp del: upt_Suc add: nth_upt)
  from gp_loop_Inr [OF l] have a: "length ps = length [1..<H + 1]"
    and b: "\<forall>k < length [1..<H + 1].
        gp_predict model (last fr) feature_cols ([1..<H + 1] ! k) = Inr (ps ! k)"
    by blast+
  show "length ps = H"
    using a len by simp
  show "\<forall>k < H. gp_predict model (last fr) feature_cols (Suc k) = Inr (ps ! k)"
  proof (intro allI impI)
    fix k
    assume k: "k < H"
    then have "gp_predict model (last fr) feature_cols ([1..<H + 1] ! k) = Inr (ps ! k)"
      using b len by metis
    then show "gp_predict model (last fr) feature_cols (Suc k) = Inr (ps ! k)"
      using nth [OF k] by simp
  qed
qed

lemma generate_predictions_step:
  assumes "fr \<noteq> []" and "generate_predictions model fr feature_cols H = Inr ps" and "k < H"
  shows "model (map (\<lambda>c. dict_get (gp_features (last fr) feature_cols
                          (r_day (last fr) + 1 + int k)) c 0) feature_cols)
           = Some (predicted_sales (ps ! k))"
    and "p_date (ps ! k) = r_day (last fr) + 1 + int k"
proof -
  have e: "r_day (last fr) + int (Suc k) = r_day (last fr) + 1 + int k"
    by simp
  have g: "gp_predict model (last fr) feature_cols (Suc k) = Inr (ps ! k)"
    using generate_predictions_Inr(2) [OF assms(1,2)] assms(3) by simp
  then obtain v where v: "model (map (\<lambda>c. dict_get (gp_features (last fr) feature_cols
                          (r_day (last fr) + 1 + int k)) c 0) feature_cols) = Some v"
      "ps ! k = \<lparr>p_date = r_day (last fr) + 1 + int k,
                 p_day_name = weekday_name (r_day (last fr) + 1 + int k),
                 predicted_sales = v,
                 p_confidence = (if weekday (r_day (last fr) + 1 + int k) < 5
                                 then ''high'' else ''medium'')\<rparr>"
    unfolding gp_predict_cases e by (auto split: option.splits)
  show "model (map (\<lambda>c. dict_get (gp_features (last fr) feature_cols
                          (r_day (last fr) + 1 + int k)) c 0) feature_cols)
           = Some (predicted_sales (ps ! k))"
    using v by simp
  show "p_date (ps ! k) = r_day (last fr) + 1 + int k"
    using v by simp
qed

lemma generate_predictions_dates:
  assumes "fr \<noteq> []" and "generate_predictions model fr feature_cols H = Inr ps"
  shows "map p_date ps = map (\<lambda>k. r_day (last fr) + 1 + int k) [0..<H]"
  using generate_predictions_Inr(1) [OF assms] generate_predictions_step(2) [OF assms]
  by (auto simp: list_eq_iff_nth_eq)

lemma forecast_next_days_Inr:
  assumes "df \<noteq> []" and "forecast_next_days model feature_cols df H = Inr pts"
  shows "length pts = H"
    and "fnd_loop model feature_cols (map (\<lambda>k. index_max df + 1 + int k) [0..<H])
           (map total_sales df) = Inr (map snd pts)"
    and "map fst pts = map (\<lambda>k. index_max df + 1 + int k) [0..<H]"
proof -
  obtain fv where fv: "fnd_loop model feature_cols (map (\<lambda>k. index_max df + 1 + int k) [0..<H])
           (map total_sales df) = Inr fv"
      "pts = zip (map (\<lambda>k. index_max df + 1 + int k) [0..<H]) fv"
    using assms by (auto simp: forecast_next_days_def Let_def split: sum.splits)
  have l: "length fv = H"
    using fnd_loop_Inr [OF fv(1)] by simp
  show "length pts = H"
    using l by (simp add: fv(2))
  have "map snd pts = fv"
    unfolding fv(2) by (rule map_snd_zip) (simp add: l)
  then show "fnd_loop model feature_cols (map (\<lambda>k. index_max df + 1 + int k) [0..<H])
           (map total_sales df) = Inr (map snd pts)"
    using fv(1) by simp
  show "map fst pts = map (\<lambda>k. index_max df + 1 + int k) [0..<H]"
    unfolding fv(2) by (rule map_fst_zip) (simp add: l)
qed

text \<open>
  C1 (as amended).  A feature name of the persisted metadata that is absent from the live
  feature dictionary is given the value 0 and prediction proceeds: in
  \<open>forecast_with_lightgbm\<close> the entry of \<open>X\<close> at its position is 0; in
  \<open>generate_predictions\<close> a name that is neither a calendar key nor a column of the last
  row enters \<open>X_pred\<close> as 0, and no \<open>KeyError\<close> is raised.
\<close>

theorem missing_feature_defaults_to_zero:
  "(\<forall>k < length features.
      features ! k \<notin> fst ` set (lgbm_feature_values df i predictions)
      \<longrightarrow> lgbm_X features df i predictions ! k = 0)
   \<and> (\<forall>k < length feature_cols.
        feature_cols ! k \<notin> calendar_keys \<and> feature_cols ! k \<notin> fst ` set (r_cols last_row)
        \<longrightarrow> (\<exists>X. select_columns (gp_features last_row feature_cols next_day) feature_cols = Inr X
                 \<and> X ! k = 0))
   \<and> generate_predictions model fr feature_cols n_days \<noteq> Inl KeyError"
proof (intro conjI allI impI)
  fix k
  assume k: "k < length features"
    and a: "features ! k \<notin> fst ` set (lgbm_feature_values df i predictions)"
  from a have "map_of (lgbm_feature_values df i predictions) (features ! k) = None"
    by (simp add: map_of_eq_None_iff)
  then show "lgbm_X features df i predictions ! k = 0"
    using k by (simp add: lgbm_X_def dict_get_def)
next
  fix k
  assume k: "k < length feature_cols"
    and a: "feature_cols ! k \<notin> calendar_keys \<and> feature_cols ! k \<notin> fst ` set (r_cols last_row)"
  from a have "map_of (r_cols last_row) (feature_cols ! k) = None"
    by (simp add: map_of_eq_None_iff)
  then have "dict_get (gp_features last_row feature_cols next_day) (feature_cols ! k) 0 = 0"
    using gp_features_column [of "feature_cols ! k" feature_cols last_row next_day] k a
    by (simp add: dict_get_def)
  then show "\<exists>X. select_columns (gp_features last_row feature_cols next_day) feature_cols = Inr X
                 \<and> X ! k = 0"
    using k by (simp add: gp_select_columns)
next
  show "generate_predictions model fr feature_cols n_days \<noteq> Inl KeyError"
    using gp_loop_not_KeyError [of model "last fr" feature_cols "[1..<n_days + 1]"]
    by (simp add: generate_predictions_def del: upt_Suc)
qed

theorem missing_feature_defaults_to_zero_witness:
  "lgbm_X [''sales_lag_1'', ''foo''] [\<lparr>day = 3, total_sales = 250\<rparr>] 0 [] ! 1 = 0
   \<and> select_columns
        (gp_features \<lparr>r_day = 3, r_cols = [(''sales_lag_1'', 100)]\<rparr> [''sales_lag_1'', ''foo''] 4)
        [''sales_lag_1'', ''foo'']
       = Inr [100, 0]"
proof -
  have k: "(1::nat) < length [''sales_lag_1'', ''foo'']"
    by simp
  have a: "[''sales_lag_1'', ''foo''] ! 1
      \<notin> fst ` set (lgbm_feature_values [\<lparr>day = 3, total_sales = 250\<rparr>] 0 [])"
    by code_simp
  have b: "[''sales_lag_1'', ''foo''] ! 1 \<notin> calendar_keys
      \<and> [''sales_lag_1'', ''foo''] ! 1
        \<notin> fst ` set (r_cols \<lparr>r_day = 3, r_cols = [(''sales_lag_1'', 100)]\<rparr>)"
    by (simp add: calendar_keys_def)
  have "lgbm_X [''sales_lag_1'', ''foo''] [\<lparr>day = 3, total_sales = 250\<rparr>] 0 [] ! 1 = 0"
    using missing_feature_defaults_to_zero
      [of "[''sales_lag_1'', ''foo'']" "[\<lparr>day = 3, total_sales = 250\<rparr>]" 0 "[]"] k a
    by blast
  moreover obtain X where
    "select_columns
        (gp_features \<lparr>r_day = 3, r_cols = [(''sales_lag_1'', 100)]\<rparr> [''sales_lag_1'', ''foo''] 4)
        [''sales_lag_1'', ''foo''] = Inr X" "X ! 1 = 0"
    using missing_feature_defaults_to_zero
      [of "[]" _ _ _ "[''sales_lag_1'', ''foo'']"
        "\<lparr>r_day = 3, r_cols = [(''sales_lag_1'', 100)]\<rparr>" 4] k b
    by blast
  moreover have "select_columns
        (gp_features \<lparr>r_day = 3, r_cols = [(''sales_lag_1'', 100)]\<rparr> [''sales_lag_1'', ''foo''] 4)
        [''sales_lag_1'', ''foo''] = Inr [100, 0]"
    by code_simp
  ultimately show ?thesis
    by simp
qed

text \<open>
  With the persisted features \<open>sales_lag_1\<close> and \<open>foo\<close>, of which \<open>foo\<close> is not built,
  both forecasters return predictions: \<open>foo\<close> enters as 0 and no error is raised.
\<close>

theorem missing_feature_counterexample:
  "forecast_with_lightgbm sum_backend [''sales_lag_1'', ''foo'']
       [\<lparr>day = 3, total_sales = 250\<rparr>] 2 = [(4, 250), (5, 250)]
   \<and> lgbm_X [''sales_lag_1'', ''foo''] [\<lparr>day = 3, total_sales = 250\<rparr>] 0 [] = [250, 0]
   \<and> generate_predictions sum_backend [\<lparr>r_day = 3, r_cols = [(''sales_lag_1'', 100)]\<rparr>]
       [''sales_lag_1'', ''foo''] 1
     = Inr [\<lparr>p_date = 4, p_day_name = ''Monday'', predicted_sales = 100,
             p_confidence = ''high''\<rparr>]"
  by code_simp

text \<open>
  The forecast points of the two forecasters.  For a non-empty history
  \<open>forecast_with_lightgbm\<close> returns exactly \<open>H\<close> points, dated from the day after the
  latest date of the history (the date of its last row when the history is ascending) in
  strictly increasing order; the value of step \<open>k\<close> is \<open>max(0, pred)\<close> for the backend's
  prediction, or the historical mean when the backend raises, and so every value is
  \<open>\<ge> 0\<close> when the backend never raises or the historical mean is \<open>\<ge> 0\<close>.
  \<open>generate_predictions\<close>, for a non-empty frame and a backend that never raises, returns
  \<open>H\<close> points with the dates after its last row, strictly increasing, each with the value
  its backend gave.
\<close>

theorem forecast_points:
  "(df \<noteq> [] \<longrightarrow>
      length (forecast_with_lightgbm model features df H) = H
    \<and> map fst (forecast_with_lightgbm model features df H)
        = map (\<lambda>k. index_max df + 1 + int k) [0..<H]
    \<and> sorted_wrt (<) (map fst (forecast_with_lightgbm model features df H))
    \<and> (sorted (map day df) \<longrightarrow> index_max df = day (last df))
    \<and> (\<forall>k < H. snd (forecast_with_lightgbm model features df H ! k)
          = (case model (lgbm_X features df k (take k (lgbm_predictions model features df H))) of
               Some pred \<Rightarrow> max 0 pred
             | None \<Rightarrow> mean (map total_sales df)))
    \<and> (0 \<le> mean (map total_sales df) \<or> (\<forall>x. model x \<noteq> None)
        \<longrightarrow> (\<forall>k < H. 0 \<le> snd (forecast_with_lightgbm model features df H ! k))))
   \<and> (fr \<noteq> [] \<and> (\<forall>x. model x \<noteq> None) \<longrightarrow>
        (\<exists>ps. generate_predictions model fr feature_cols H = Inr ps
           \<and> length ps = H
           \<and> map p_date ps = map (\<lambda>k. r_day (last fr) + 1 + int k) [0..<H]
           \<and> sorted_wrt (<) (map p_date ps)
           \<and> (\<forall>k < H. model (map (\<lambda>c. dict_get (gp_features (last fr) feature_cols
                                       (r_day (last fr) + 1 + int k)) c 0) feature_cols)
                  = Some (predicted_sales (ps ! k)))))"
proof (intro conjI impI)
  assume d: "df \<noteq> []"
  show "length (forecast_with_lightgbm model features df H) = H"
    by (rule forecast_with_lightgbm_dates(1) [OF d])
  show "map fst (forecast_with_lightgbm model features df H)
        = map (\<lambda>k. index_max df + 1 + int k) [0..<H]"
    by (rule forecast_with_lightgbm_dates(2) [OF d])
  show "sorted_wrt (<) (map fst (forecast_with_lightgbm model features df H))"
    unfolding forecast_with_lightgbm_dates(2) [OF d] by (rule dates_increasing)
  show "\<forall>k < H. snd (forecast_with_lightgbm model features df H ! k)
          = (case model (lgbm_X features df k (take k (lgbm_predictions model features df H))) of
               Some pred \<Rightarrow> max 0 pred
             | None \<Rightarrow> mean (map total_sales df))"
    using forecast_with_lightgbm_value [OF d] nth_lgbm_predictions [of _ H model features df]
    by (simp add: lgbm_step_def)
next
  assume d: "df \<noteq> []" and s: "sorted (map day df)"
  show "index_max df = day (last df)"
    by (rule index_max_sorted [OF d s])
next
  assume d: "df \<noteq> []"
    and m: "0 \<le> mean (map total_sales df) \<or> (\<forall>x. model x \<noteq> None)"
  show "\<forall>k < H. 0 \<le> snd (forecast_with_lightgbm model features df H ! k)"
    using forecast_with_lightgbm_value [OF d] nth_lgbm_predictions [of _ H model features df]
      lgbm_step_nonneg [OF m]
    by simp
next
  assume a: "fr \<noteq> [] \<and> (\<forall>x. model x \<noteq> None)"
  then obtain ps where ps: "generate_predictions model fr feature_cols H = Inr ps"
    using gp_loop_total [of model "last fr" feature_cols "[1..<H + 1]"]
    by (auto simp: generate_predictions_def simp del: upt_Suc)
  from a have f: "fr \<noteq> []"
    by simp
  have "length ps = H"
    by (rule generate_predictions_Inr(1) [OF f ps])
  moreover have e: "map p_date ps = map (\<lambda>k. r_day (last fr) + 1 + int k) [0..<H]"
    by (rule generate_predictions_dates [OF f ps])
  moreover have "sorted_wrt (<) (map p_date ps)"
    unfolding e by (rule dates_increasing)
  moreover have "\<forall>k < H. model (map (\<lambda>c. dict_get (gp_features (last fr) feature_cols
                                       (r_day (last fr) + 1 + int k)) c 0) feature_cols)
                  = Some (predicted_sales (ps ! k))"
    using generate_predictions_step(1) [OF f ps] by blast
  ultimately show "\<exists>ps. generate_predictions model fr feature_cols H = Inr ps
           \<and> length ps = H
           \<and> map p_date ps = map (\<lambda>k. r_day (last fr) + 1 + int k) [0..<H]
           \<and> sorted_wrt (<) (map p_date ps)
           \<and> (\<forall>k < H. model (map (\<lambda>c. dict_get (gp_features (last fr) feature_cols
                                       (r_day (last fr) + 1 + int k)) c 0) feature_cols)
                  = Some (predicted_sales (ps ! k)))"
    using ps by blast
qed

theorem forecast_points_witness:
  "length (forecast_with_lightgbm first_feature_backend [''sales_lag_1'']
       [\<lparr>day = 3, total_sales = 250\<rparr>] 3) = 3
   \<and> forecast_with_lightgbm first_feature_backend [''sales_lag_1'']
       [\<lparr>day = 3, total_sales = 250\<rparr>] 3 = [(4, 250), (5, 250), (6, 250)]
   \<and> generate_predictions sum_backend [\<lparr>r_day = 3, r_cols = [(''sales_lag_1'', 100)]\<rparr>]
       [''sales_lag_1''] 2
     = Inr [\<lparr>p_date = 4, p_day_name = ''Monday'', predicted_sales = 100, p_confidence = ''high''\<rparr>,
            \<lparr>p_date = 5, p_day_name = ''Tuesday'', predicted_sales = 100, p_confidence = ''high''\<rparr>]"
proof -
  have d: "[\<lparr>day = 3, total_sales = 250\<rparr>] \<noteq> []"
    by simp
  have l: "length (forecast_with_lightgbm first_feature_backend [''sales_lag_1'']
       [\<lparr>day = 3, total_sales = 250\<rparr>] 3) = 3"
    using forecast_points [of "[\<lparr>day = 3, total_sales = 250\<rparr>]" first_feature_backend
        "[''sales_lag_1'']" 3 "[]"] d
    by blast
  have f: "[\<lparr>r_day = 3, r_cols = [(''sales_lag_1'', 100)]\<rparr>] \<noteq> []
      \<and> (\<forall>x. sum_backend x \<noteq> None)"
    by (simp add: sum_backend_def)
  obtain ps where ps: "generate_predictions sum_backend
        [\<lparr>r_day = 3, r_cols = [(''sales_lag_1'', 100)]\<rparr>] [''sales_lag_1''] 2 = Inr ps"
      "length ps = 2"
    using forecast_points [of "[]" sum_backend _ 2
        "[\<lparr>r_day = 3, r_cols = [(''sales_lag_1'', 100)]\<rparr>]" "[''sales_lag_1'']"] f
    by blast
  have e: "forecast_with_lightgbm first_feature_backend [''sales_lag_1'']
       [\<lparr>day = 3, total_sales = 250\<rparr>] 3 = [(4, 250), (5, 250), (6, 250)]"
    by code_simp
  have g: "generate_predictions sum_backend [\<lparr>r_day = 3, r_cols = [(''sales_lag_1'', 100)]\<rparr>]
       [''sales_lag_1''] 2
     = Inr [\<lparr>p_date = 4, p_day_name = ''Monday'', predicted_sales = 100, p_confidence = ''high''\<rparr>,
            \<lparr>p_date = 5, p_day_name = ''Tuesday'', predicted_sales = 100, p_confidence = ''high''\<rparr>]"
    by code_simp
  show ?thesis
    using l e g ps by simp
qed

text \<open>
  C7.  Every forecast point is to be \<open>\<ge> 0\<close>, negative backend predictions being clamped
  to zero at every step.  \<open>forecast_with_lightgbm\<close> clamps, as shown above;
  \<open>generate_predictions\<close> stores the backend's value as it is: for a last row with
  \<open>sales_lag_1 = 100\<close> and a backend that predicts \<open>-200\<close> from it, the forecast point of
  the next day is \<open>-200\<close>.
\<close>

theorem generate_predictions_unclamped:
  "generate_predictions shifted_backend [\<lparr>r_day = 3, r_cols = [(''sales_lag_1'', 100)]\<rparr>]
       [''sales_lag_1''] 1
     = Inr [\<lparr>p_date = 4, p_day_name = ''Monday'', predicted_sales = - 200,
             p_confidence = ''high''\<rparr>]"
  by code_simp

text \<open>
  C2 (as amended).  In \<open>forecast_next_days\<close> of train_model.py every step predicts from a
  row built on the buffer of the observed sales followed by the predictions made so far:
  from the second step on, \<open>lag_1_sales\<close> is the prediction of the step before, and the
  rolling mean is taken over that buffer.  In \<open>forecast_with_lightgbm\<close>, from the second
  step on \<open>sales_lag_1\<close> is the value appended by the step before, while the rolling means
  are those of the observed history at every step.  In \<open>generate_predictions\<close> every
  feature other than the calendar ones is, at every step, the value of the last observed
  row.
\<close>

theorem recursive_inputs:
  "(df \<noteq> [] \<and> forecast_next_days model feature_cols df H = Inr pts \<longrightarrow>
      length pts = H
    \<and> (\<forall>i < H. \<exists>X.
          select_columns (fnd_row feature_cols (index_max df + 1 + int i)
                            (map total_sales df @ take i (map snd pts))) feature_cols = Inr X
          \<and> model X = Some (snd (pts ! i)))
    \<and> (''lag_1_sales'' \<in> set feature_cols \<longrightarrow>
          (\<forall>i < H. 0 < i \<longrightarrow>
             dict_get (fnd_row feature_cols (index_max df + 1 + int i)
                         (map total_sales df @ take i (map snd pts))) ''lag_1_sales'' 0
               = snd (pts ! (i - 1))))
    \<and> (''rolling_7d_sales_avg'' \<in> set feature_cols \<longrightarrow>
          (\<forall>i < H.
             dict_get (fnd_row feature_cols (index_max df + 1 + int i)
                         (map total_sales df @ take i (map snd pts))) ''rolling_7d_sales_avg'' 0
               = mean (tail 7 (map total_sales df @ take i (map snd pts))))))
   \<and> (df \<noteq> [] \<longrightarrow>
        (\<forall>i < H.
           lgbm_predictions model features df H ! i
             = lgbm_step model features df i (take i (lgbm_predictions model features df H))
         \<and> (0 < i \<longrightarrow>
              dict_get (lgbm_feature_values df i (take i (lgbm_predictions model features df H)))
                  ''sales_lag_1'' 0
                = lgbm_predictions model features df H ! (i - 1))
         \<and> dict_get (lgbm_feature_values df i (take i (lgbm_predictions model features df H)))
                ''sales_rolling_3'' 0
              = mean (tail 3 (map total_sales df))
         \<and> dict_get (lgbm_feature_values df i (take i (lgbm_predictions model features df H)))
                ''sales_rolling_7'' 0
              = mean (tail 7 (map total_sales df))))
   \<and> (fr \<noteq> [] \<and> generate_predictions model fr feature_cols H = Inr ps \<longrightarrow>
        (\<forall>i < H.
           model (map (\<lambda>c. dict_get (gp_features (last fr) feature_cols
                                (r_day (last fr) + 1 + int i)) c 0) feature_cols)
             = Some (predicted_sales (ps ! i))
         \<and> (\<forall>c \<in> set feature_cols. c \<notin> calendar_keys \<longrightarrow>
               dict_get (gp_features (last fr) feature_cols (r_day (last fr) + 1 + int i)) c 0
                 = dict_get (r_cols (last fr)) c 0)))"
proof (intro conjI impI allI ballI)
  assume a: "df \<noteq> [] \<and> forecast_next_days model feature_cols df H = Inr pts"
  then show "length pts = H"
    using forecast_next_days_Inr(1) by blast
next
  fix i
  assume a: "df \<noteq> [] \<and> forecast_next_days model feature_cols df H = Inr pts" and i: "i < H"
  have l: "length pts = H"
    using a forecast_next_days_Inr(1) by blast
  have "fnd_loop model feature_cols (map (\<lambda>k. index_max df + 1 + int k) [0..<H])
           (map total_sales df) = Inr (map snd pts)"
    using a forecast_next_days_Inr(2) by blast
  from fnd_loop_Inr [OF this] i l
  show "\<exists>X. select_columns (fnd_row feature_cols (index_max df + 1 + int i)
                            (map total_sales df @ take i (map snd pts))) feature_cols = Inr X
          \<and> model X = Some (snd (pts ! i))"
    by simp
next
  fix i
  assume a: "df \<noteq> [] \<and> forecast_next_days model feature_cols df H = Inr pts"
    and c: "''lag_1_sales'' \<in> set feature_cols" and i: "i < H" "0 < i"
  have l: "length pts = H"
    using a forecast_next_days_Inr(1) by blast
  have "iloc_back (map total_sales df @ take i (map snd pts)) 1 = map snd pts ! (i - 1)"
    using i l by (intro iloc_back_append_take) simp_all
  then show "dict_get (fnd_row feature_cols (index_max df + 1 + int i)
                         (map total_sales df @ take i (map snd pts))) ''lag_1_sales'' 0
               = snd (pts ! (i - 1))"
    using i l by (simp add: fnd_lag_1 [OF c])
next
  fix i
  assume c: "''rolling_7d_sales_avg'' \<in> set feature_cols"
  show "dict_get (fnd_row feature_cols (index_max df + 1 + int i)
                         (map total_sales df @ take i (map snd pts))) ''rolling_7d_sales_avg'' 0
               = mean (tail 7 (map total_sales df @ take i (map snd pts)))"
    by (rule fnd_rolling_7 [OF c])
next
  fix i
  assume i: "i < H"
  show "lgbm_predictions model features df H ! i
             = lgbm_step model features df i (take i (lgbm_predictions model features df H))"
    by (rule nth_lgbm_predictions [OF i])
next
  fix i
  assume d: "df \<noteq> []" and i: "i < H" "0 < i"
  have "iloc_back (take i (lgbm_predictions model features df H)) 1
      = lgbm_predictions model features df H ! (i - 1)"
    using i by (intro iloc_back_take) (simp_all add: length_lgbm_predictions)
  then show "dict_get (lgbm_feature_values df i (take i (lgbm_predictions model features df H)))
                  ''sales_lag_1'' 0
                = lgbm_predictions model features df H ! (i - 1)"
    using i by (simp add: lgbm_lag_1 [OF d])
next
  fix i
  assume d: "df \<noteq> []"
  show "dict_get (lgbm_feature_values df i (take i (lgbm_predictions model features df H)))
                ''sales_rolling_3'' 0
              = mean (tail 3 (map total_sales df))"
    by (rule lgbm_rolling(1) [OF d])
  show "dict_get (lgbm_feature_values df i (take i (lgbm_predictions model features df H)))
                ''sales_rolling_7'' 0
              = mean (tail 7 (map total_sales df))"
    by (rule lgbm_rolling(2) [OF d])
next
  fix i
  assume a: "fr \<noteq> [] \<and> generate_predictions model fr feature_cols H = Inr ps" and i: "i < H"
  then show "model (map (\<lambda>c. dict_get (gp_features (last fr) feature_cols
                                (r_day (last fr) + 1 + int i)) c 0) feature_cols)
             = Some (predicted_sales (ps ! i))"
    using generate_predictions_step(1) by blast
next
  fix i c
  assume c: "c \<in> set feature_cols" "c \<notin> calendar_keys"
  show "dict_get (gp_features (last fr) feature_cols (r_day (last fr) + 1 + int i)) c 0
                 = dict_get (r_cols (last fr)) c 0"
    by (rule gp_features_column [OF c])
qed
theorem recursive_inputs_witness:
  "forecast_next_days sum_backend [''lag_1_sales'', ''rolling_7d_sales_avg'']
       [\<lparr>day = 3, total_sales = 250\<rparr>, \<lparr>day = 4, total_sales = 150\<rparr>] 3
     = Inr [(5, 350), (6, 600), (7, 1875 / 2)]
   \<and> dict_get (fnd_row [''lag_1_sales'', ''rolling_7d_sales_avg''] 6 [250, 150, 350])
         ''lag_1_sales'' 0 = 350
   \<and> dict_get (lgbm_feature_values [\<lparr>day = 3, total_sales = 250\<rparr>] 1
                 (take 1 (lgbm_predictions first_feature_backend [''sales_lag_1'']
                            [\<lparr>day = 3, total_sales = 250\<rparr>] 3)))
         ''sales_lag_1'' 0
       = lgbm_predictions first_feature_backend [''sales_lag_1'']
           [\<lparr>day = 3, total_sales = 250\<rparr>] 3 ! 0
   \<and> dict_get (gp_features \<lparr>r_day = 3, r_cols = [(''sales_lag_1'', 1000)]\<rparr>
                 [''sales_lag_1''] 5) ''sales_lag_1'' 0 = 1000"
proof -
  have d: "[\<lparr>day = 3, total_sales = 250\<rparr>, \<lparr>day = 4, total_sales = 150\<rparr>] \<noteq> []"
    and d1: "[\<lparr>day = 3, total_sales = 250\<rparr>] \<noteq> []"
    and f: "[\<lparr>r_day = 3, r_cols = [(''sales_lag_1'', 1000)]\<rparr>] \<noteq> []"
    by simp_all
  have e: "forecast_next_days sum_backend [''lag_1_sales'', ''rolling_7d_sales_avg'']
       [\<lparr>day = 3, total_sales = 250\<rparr>, \<lparr>day = 4, total_sales = 150\<rparr>] 3
     = Inr [(5, 350), (6, 600), (7, 1875 / 2)]"
    by code_simp
  have g: "generate_predictions shifted_backend
        [\<lparr>r_day = 3, r_cols = [(''sales_lag_1'', 1000)]\<rparr>] [''sales_lag_1''] 2
      = Inr [\<lparr>p_date = 4, p_day_name = ''Monday'', predicted_sales = 700, p_confidence = ''high''\<rparr>,
        \<lparr>p_date = 5, p_day_name = ''Tuesday'', predicted_sales = 700, p_confidence = ''high''\<rparr>]"
    by code_simp
  have c: "''lag_1_sales'' \<in> set [''lag_1_sales'', ''rolling_7d_sales_avg'']"
    by simp
  have k: "''sales_lag_1'' \<in> set [''sales_lag_1'']" "''sales_lag_1'' \<notin> calendar_keys"
    by (simp_all add: calendar_keys_def)
  have m: "index_max [\<lparr>day = 3, total_sales = 250\<rparr>, \<lparr>day = 4, total_sales = 150\<rparr>] = 4"
    by (simp add: index_max_def)
  note t = recursive_inputs
    [of "[\<lparr>day = 3, total_sales = 250\<rparr>, \<lparr>day = 4, total_sales = 150\<rparr>]" sum_backend
      "[''lag_1_sales'', ''rolling_7d_sales_avg'']" 3 "[(5, 350), (6, 600), (7, 1875 / 2)]"
      "[]" "[]" "[]", THEN conjunct1, THEN mp, OF conjI [OF d e],
      THEN conjunct2, THEN conjunct2, THEN conjunct1, THEN mp, OF c, THEN spec, of 1]
  note u = recursive_inputs
    [of "[\<lparr>day = 3, total_sales = 250\<rparr>]" first_feature_backend "[]" 3 "[]"
      "[''sales_lag_1'']" "[]" "[]", THEN conjunct2, THEN conjunct1, THEN mp, OF d1,
      THEN spec, of 1]
  note v = recursive_inputs
    [of "[]" shifted_backend "[''sales_lag_1'']" 2 "[]" "[]"
      "[\<lparr>r_day = 3, r_cols = [(''sales_lag_1'', 1000)]\<rparr>]"
      "[\<lparr>p_date = 4, p_day_name = ''Monday'', predicted_sales = 700, p_confidence = ''high''\<rparr>,
        \<lparr>p_date = 5, p_day_name = ''Tuesday'', predicted_sales = 700, p_confidence = ''high''\<rparr>]",
      THEN conjunct2, THEN conjunct2, THEN mp, OF conjI [OF f g], THEN spec, of 1]
  have a: "dict_get (fnd_row [''lag_1_sales'', ''rolling_7d_sales_avg''] 6 [250, 150, 350])
         ''lag_1_sales'' 0 = 350"
    using t by (simp add: m)
  have b: "dict_get (lgbm_feature_values [\<lparr>day = 3, total_sales = 250\<rparr>] 1
                 (take 1 (lgbm_predictions first_feature_backend [''sales_lag_1'']
                            [\<lparr>day = 3, total_sales = 250\<rparr>] 3)))
         ''sales_lag_1'' 0
       = lgbm_predictions first_feature_backend [''sales_lag_1'']
           [\<lparr>day = 3, total_sales = 250\<rparr>] 3 ! 0"
    using u by simp
  have "dict_get (gp_features \<lparr>r_day = 3, r_cols = [(''sales_lag_1'', 1000)]\<rparr>
                 [''sales_lag_1''] 5) ''sales_lag_1'' 0
      = dict_get [(''sales_lag_1'', 1000)] ''sales_lag_1'' 0"
    using v k by simp
  then have c: "dict_get (gp_features \<lparr>r_day = 3, r_cols = [(''sales_lag_1'', 1000)]\<rparr>
                 [''sales_lag_1''] 5) ''sales_lag_1'' 0 = 1000"
    by (simp add: dict_get_def)
  show ?thesis
    using e a b c by simp
qed

text \<open>
  \<open>generate_predictions\<close> does not feed a prediction back: the first step predicts 700
  from \<open>sales_lag_1 = 1000\<close>, and the second step again reads \<open>sales_lag_1 = 1000\<close>.  In
  \<open>forecast_with_lightgbm\<close> the rolling mean of the second step is that of the observed
  sales 250 and 150, although the buffer then holds the prediction 150 as well.
\<close>

theorem recursive_inputs_counterexample:
  "generate_predictions shifted_backend
       [\<lparr>r_day = 3, r_cols = [(''sales_lag_1'', 1000)]\<rparr>] [''sales_lag_1''] 2
     = Inr [\<lparr>p_date = 4, p_day_name = ''Monday'', predicted_sales = 700, p_confidence = ''high''\<rparr>,
            \<lparr>p_date = 5, p_day_name = ''Tuesday'', predicted_sales = 700, p_confidence = ''high''\<rparr>]
   \<and> dict_get (gp_features \<lparr>r_day = 3, r_cols = [(''sales_lag_1'', 1000)]\<rparr>
                 [''sales_lag_1''] 5) ''sales_lag_1'' 0 = 1000
   \<and> lgbm_predictions first_feature_backend [''sales_lag_1'']
       [\<lparr>day = 3, total_sales = 250\<rparr>, \<lparr>day = 4, total_sales = 150\<rparr>] 2 = [150, 150]
   \<and> dict_get (lgbm_feature_values
                 [\<lparr>day = 3, total_sales = 250\<rparr>, \<lparr>day = 4, total_sales = 150\<rparr>] 1 [150])
         ''sales_rolling_3'' 0 = 200"
  by code_simp

section \<open>Properties of the FeatureBuilder\<close>

lemma length_shift: "length (shift k xs) = length xs"
  by (simp add: shift_def)

lemma shift_nth:
  assumes "i < length xs"
  shows "shift k xs ! i = (if i < k then NaN else Num (xs ! (i - k)))"
proof (cases "i < k")
  case True
  then show ?thesis
    using assms by (simp add: shift_def nth_append)
next
  case False
  then have "i - k < length xs - k"
    using assms by simp
  then have "map Num (take (length xs - k) xs) ! (i - k) = Num (xs ! (i - k))"
    by simp
  then show ?thesis
    using False assms by (simp add: shift_def nth_append min_def)
qed

lemma rolling_mean_nth:
  assumes "i < length xs"
  shows "rolling_mean w xs ! i = Num (mean (tail w (take (Suc i) xs)))"
  using assms by (simp add: rolling_mean_def)

lemma fillna0_not_NaN: "fillna0 c \<noteq> NaN"
  by (cases c) (simp_all add: fillna0_def)

lemma trend_nth:
  assumes "i < length xs"
  shows "map fillna0 (pct_change p xs) ! i \<noteq> NaN"
  using assms by (simp add: pct_change_def fillna0_not_NaN)

lemma filter_ge_upt: "filter (\<lambda>i. k \<le> i) [0..<n] = [k..<n]"
proof (induction n)
  case 0
  show ?case by simp
next
  case (Suc n)
  then show ?case
    by (cases "k \<le> n") simp_all
qed

lemma engineered_row_complete:
  assumes "i < length df"
  shows "(\<forall>c \<in> set (engineered_columns df). snd c ! i \<noteq> NaN) \<longleftrightarrow> 3 \<le> i"
proof
  assume "\<forall>c \<in> set (engineered_columns df). snd c ! i \<noteq> NaN"
  moreover have "(''sales_lag_'' @ str 3, shift 3 (map total_sales df)) \<in> set (engineered_columns df)"
    by (simp add: engineered_columns_def Let_def)
  ultimately have "shift 3 (map total_sales df) ! i \<noteq> NaN"
    by fastforce
  then show "3 \<le> i"
    using assms by (simp add: shift_nth split: if_splits)
next
  assume "3 \<le> i"
  then show "\<forall>c \<in> set (engineered_columns df). snd c ! i \<noteq> NaN"
    using assms
    by (simp add: engineered_columns_def Let_def shift_nth rolling_mean_nth trend_nth)
qed

lemma keep_rows:
  "filter (\<lambda>i. \<forall>c \<in> set (engineered_columns df). snd c ! i \<noteq> NaN) [0..<length df]
     = [3..<length df]"
proof -
  have "filter (\<lambda>i. \<forall>c \<in> set (engineered_columns df). snd c ! i \<noteq> NaN) [0..<length df]
      = filter (\<lambda>i. 3 \<le> i) [0..<length df]"
    by (rule filter_cong) (simp_all add: engineered_row_complete)
  then show ?thesis
    by (simp add: filter_ge_upt)
qed

lemma nth_from_3:
  "map (\<lambda>i. xs ! i) [3..<length xs] = drop 3 xs"
  by (simp add: list_eq_iff_nth_eq)

lemma load_and_prepare_data_eq:
  "load_and_prepare_data records
     = \<lparr>f_days = drop 3 (map day (sort_key day records)),
        f_columns = map (\<lambda>(name, cs). (name, map (\<lambda>i. cs ! i) [3..<length records]))
                      (engineered_columns (sort_key day records))\<rparr>"
  using keep_rows [of "sort_key day records"] nth_from_3 [of "map day (sort_key day records)"]
  by (simp add: load_and_prepare_data_def dropna_def Let_def)

lemma lag_column_rows:
  assumes "1 \<le> k" and "k \<le> 3"
  shows "map (\<lambda>i. shift k xs ! i) [3..<length xs]
    = map (\<lambda>j. Num (xs ! (j + 3 - k))) [0..<length xs - 3]"
  using assms by (simp add: list_eq_iff_nth_eq shift_nth add.commute)

lemma map_of_rows:
  "map_of (map (\<lambda>(name, cs). (name, g cs)) cols) name = map_option g (map_of cols name)"
  by (induction cols) auto

lemma engineered_lag_columns:
  assumes "k \<in> {1, 2, 3}"
  shows "map_of (engineered_columns df) (''sales_lag_'' @ str k) = Some (shift k (map total_sales df))"
    and "map_of (engineered_columns df) (''orders_lag_'' @ str k) = Some (shift k (map orders_count df))"
    and "map_of (engineered_columns df) (''items_lag_'' @ str k) = Some (shift k (map items_sold df))"
  using assms by (auto simp: engineered_columns_def Let_def str_def)

lemma sort_key_ascending:
  assumes "sorted (map f xs)"
  shows "sort_key f xs = xs"
  using assms by (induction xs) (auto simp: insort_is_Cons)

lemma kept_cells_not_NaN:
  assumes "c \<in> set (f_columns (load_and_prepare_data records))"
  shows "length (snd c) = length records - 3 \<and> NaN \<notin> set (snd c)"
proof -
  let ?df = "sort_key day records"
  obtain name cs where c: "(name, cs) \<in> set (engineered_columns ?df)"
      "c = (name, map (\<lambda>i. cs ! i) [3..<length records])"
    using assms unfolding load_and_prepare_data_eq by auto
  have "cs ! i \<noteq> NaN" if "3 \<le> i" "i < length records" for i
  proof -
    have "\<forall>c \<in> set (engineered_columns ?df). snd c ! i \<noteq> NaN"
      using engineered_row_complete [of i ?df] that by simp
    then show ?thesis
      using c(1) by fastforce
  qed
  then have "NaN \<notin> set (map (\<lambda>i. cs ! i) [3..<length records])"
    by (auto simp: eq_commute [of NaN])
  then show ?thesis
    by (simp add: c(2))
qed

lemma kept_lag_rows:
  assumes "k \<in> {1, 2, 3}"
  shows "map (\<lambda>i. shift k (map f df) ! i) [3..<length df]
    = map (\<lambda>j. Num (f (df ! (j + 3 - k)))) [0..<length df - 3]"
proof -
  have "map (\<lambda>i. shift k (map f df) ! i) [3..<length (map f df)]
      = map (\<lambda>j. Num (map f df ! (j + 3 - k))) [0..<length (map f df) - 3]"
    using assms by (intro lag_column_rows) auto
  also have "\<dots> = map (\<lambda>j. Num (f (df ! (j + 3 - k)))) [0..<length df - 3]"
    using assms by (auto intro!: map_cong)
  finally show ?thesis
    by simp
qed

text \<open>
  C3 (as amended).  For every sequence of daily records the feature-building step sorts
  by day (an ascending sequence is left as it is) and returns one row per record except
  for the three earliest: \<open>|S| - 3\<close> rows, none when \<open>|S| \<le> 3\<close>.  The rows of the three
  earliest records, whose lag features are undefined, are dropped.  No cell of a
  returned row is undefined, and in the returned row \<open>j\<close> every \<open>lag_k\<close> feature is the
  value of its metric \<open>k\<close> records earlier.
\<close>

theorem feature_rows_after_dropna:
  "length (f_days (load_and_prepare_data records)) = length records - 3
   \<and> f_days (load_and_prepare_data records) = drop 3 (map day (sort_key day records))
   \<and> (sorted (map day records) \<longrightarrow> sort_key day records = records)
   \<and> (\<forall>c \<in> set (f_columns (load_and_prepare_data records)).
         length (snd c) = length records - 3 \<and> NaN \<notin> set (snd c))
   \<and> (\<forall>k \<in> {1, 2, 3}.
         map_of (f_columns (load_and_prepare_data records)) (''sales_lag_'' @ str k)
           = Some (map (\<lambda>j. Num (total_sales (sort_key day records ! (j + 3 - k))))
                     [0..<length records - 3])
       \<and> map_of (f_columns (load_and_prepare_data records)) (''orders_lag_'' @ str k)
           = Some (map (\<lambda>j. Num (orders_count (sort_key day records ! (j + 3 - k))))
                     [0..<length records - 3])
       \<and> map_of (f_columns (load_and_prepare_data records)) (''items_lag_'' @ str k)
           = Some (map (\<lambda>j. Num (items_sold (sort_key day records ! (j + 3 - k))))
                     [0..<length records - 3]))"
proof (intro conjI impI ballI)
  show "length (f_days (load_and_prepare_data records)) = length records - 3"
    by (simp add: load_and_prepare_data_eq)
  show "f_days (load_and_prepare_data records) = drop 3 (map day (sort_key day records))"
    by (simp add: load_and_prepare_data_eq)
next
  assume "sorted (map day records)"
  then show "sort_key day records = records"
    by (rule sort_key_ascending)
next
  fix c
  assume c: "c \<in> set (f_columns (load_and_prepare_data records))"
  show "length (snd c) = length records - 3"
    using kept_cells_not_NaN [OF c] by simp
  show "NaN \<notin> set (snd c)"
    using kept_cells_not_NaN [OF c] by simp
next
  fix k :: nat
  assume k: "k \<in> {1, 2, 3}"
  have l: "length (sort_key day records) = length records"
    by simp
  have m: "map_of (f_columns (load_and_prepare_data records)) name
      = map_option (\<lambda>cs. map (\<lambda>i. cs ! i) [3..<length records])
          (map_of (engineered_columns (sort_key day records)) name)" for name
    unfolding load_and_prepare_data_eq by (simp add: map_of_rows)
  show "map_of (f_columns (load_and_prepare_data records)) (''sales_lag_'' @ str k)
           = Some (map (\<lambda>j. Num (total_sales (sort_key day records ! (j + 3 - k))))
                     [0..<length records - 3])"
    unfolding m engineered_lag_columns(1) [OF k]
    using kept_lag_rows [OF k, of total_sales "sort_key day records"] l by simp
  show "map_of (f_columns (load_and_prepare_data records)) (''orders_lag_'' @ str k)
           = Some (map (\<lambda>j. Num (orders_count (sort_key day records ! (j + 3 - k))))
                     [0..<length records - 3])"
    unfolding m engineered_lag_columns(2) [OF k]
    using kept_lag_rows [OF k, of orders_count "sort_key day records"] l by simp
  show "map_of (f_columns (load_and_prepare_data records)) (''items_lag_'' @ str k)
           = Some (map (\<lambda>j. Num (items_sold (sort_key day records ! (j + 3 - k))))
                     [0..<length records - 3])"
    unfolding m engineered_lag_columns(3) [OF k]
    using kept_lag_rows [OF k, of items_sold "sort_key day records"] l by simp
qed

theorem feature_rows_after_dropna_witness:
  "f_days (load_and_prepare_data
     [\<lparr>day = 3, total_sales = 10, orders_count = 1, items_sold = 2\<rparr>,
      \<lparr>day = 4, total_sales = 20, orders_count = 2, items_sold = 3\<rparr>,
      \<lparr>day = 5, total_sales = 0, orders_count = 3, items_sold = 4\<rparr>,
      \<lparr>day = 6, total_sales = 40, orders_count = 4, items_sold = 5\<rparr>,
      \<lparr>day = 7, total_sales = 50, orders_count = 5, items_sold = 6\<rparr>]) = [6, 7]
   \<and> map_of (f_columns (load_and_prepare_data
     [\<lparr>day = 3, total_sales = 10, orders_count = 1, items_sold = 2\<rparr>,
      \<lparr>day = 4, total_sales = 20, orders_count = 2, items_sold = 3\<rparr>,
      \<lparr>day = 5, total_sales = 0, orders_count = 3, items_sold = 4\<rparr>,
      \<lparr>day = 6, total_sales = 40, orders_count = 4, items_sold = 5\<rparr>,
      \<lparr>day = 7, total_sales = 50, orders_count = 5, items_sold = 6\<rparr>])) ''sales_lag_1'' = Some [Num 0, Num 40]"
proof -
  note t = feature_rows_after_dropna [of "[\<lparr>day = 3, total_sales = 10, orders_count = 1, items_sold = 2\<rparr>,
      \<lparr>day = 4, total_sales = 20, orders_count = 2, items_sold = 3\<rparr>,
      \<lparr>day = 5, total_sales = 0, orders_count = 3, items_sold = 4\<rparr>,
      \<lparr>day = 6, total_sales = 40, orders_count = 4, items_sold = 5\<rparr>,
      \<lparr>day = 7, total_sales = 50, orders_count = 5, items_sold = 6\<rparr>]"]
  have o: "sorted (map day
     [\<lparr>day = 3, total_sales = 10, orders_count = 1, items_sold = 2\<rparr>,
      \<lparr>day = 4, total_sales = 20, orders_count = 2, items_sold = 3\<rparr>,
      \<lparr>day = 5, total_sales = 0, orders_count = 3, items_sold = 4\<rparr>,
      \<lparr>day = 6, total_sales = 40, orders_count = 4, items_sold = 5\<rparr>,
      \<lparr>day = 7, total_sales = 50, orders_count = 5, items_sold = 6\<rparr>])"
    by simp
  have k: "(1::nat) \<in> {1, 2, 3}"
    by simp
  have s: "sort_key day
     [\<lparr>day = 3, total_sales = 10, orders_count = 1, items_sold = 2\<rparr>,
      \<lparr>day = 4, total_sales = 20, orders_count = 2, items_sold = 3\<rparr>,
      \<lparr>day = 5, total_sales = 0, orders_count = 3, items_sold = 4\<rparr>,
      \<lparr>day = 6, total_sales = 40, orders_count = 4, items_sold = 5\<rparr>,
      \<lparr>day = 7, total_sales = 50, orders_count = 5, items_sold = 6\<rparr>] =
     [\<lparr>day = 3, total_sales = 10, orders_count = 1, items_sold = 2\<rparr>,
      \<lparr>day = 4, total_sales = 20, orders_count = 2, items_sold = 3\<rparr>,
      \<lparr>day = 5, total_sales = 0, orders_count = 3, items_sold = 4\<rparr>,
      \<lparr>day = 6, total_sales = 40, orders_count = 4, items_sold = 5\<rparr>,
      \<lparr>day = 7, total_sales = 50, orders_count = 5, items_sold = 6\<rparr>]"
    using t [THEN conjunct2, THEN conjunct2, THEN conjunct1] o by (rule mp)
  have u: "[0..<length [\<lparr>day = 3, total_sales = 10, orders_count = 1, items_sold = 2\<rparr>,
      \<lparr>day = 4, total_sales = 20, orders_count = 2, items_sold = 3\<rparr>,
      \<lparr>day = 5, total_sales = 0, orders_count = 3, items_sold = 4\<rparr>,
      \<lparr>day = 6, total_sales = 40, orders_count = 4, items_sold = 5\<rparr>,
      \<lparr>day = 7, total_sales = 50, orders_count = 5, items_sold = 6\<rparr>] - 3] = [0, 1]"
    by (simp add: upt_rec)
  have "f_days (load_and_prepare_data
     [\<lparr>day = 3, total_sales = 10, orders_count = 1, items_sold = 2\<rparr>,
      \<lparr>day = 4, total_sales = 20, orders_count = 2, items_sold = 3\<rparr>,
      \<lparr>day = 5, total_sales = 0, orders_count = 3, items_sold = 4\<rparr>,
      \<lparr>day = 6, total_sales = 40, orders_count = 4, items_sold = 5\<rparr>,
      \<lparr>day = 7, total_sales = 50, orders_count = 5, items_sold = 6\<rparr>]) = [6, 7]"
    using t [THEN conjunct2, THEN conjunct1] by (simp add: s)
  moreover have "map_of (f_columns (load_and_prepare_data
     [\<lparr>day = 3, total_sales = 10, orders_count = 1, items_sold = 2\<rparr>,
      \<lparr>day = 4, total_sales = 20, orders_count = 2, items_sold = 3\<rparr>,
      \<lparr>day = 5, total_sales = 0, orders_count = 3, items_sold = 4\<rparr>,
      \<lparr>day = 6, total_sales = 40, orders_count = 4, items_sold = 5\<rparr>,
      \<lparr>day = 7, total_sales = 50, orders_count = 5, items_sold = 6\<rparr>])) (''sales_lag_'' @ str 1) = Some [Num 0, Num 40]"
    using t [THEN conjunct2, THEN conjunct2, THEN conjunct2, THEN conjunct2, THEN bspec, OF k,
        THEN conjunct1]
    unfolding s u by simp
  ultimately show ?thesis
    by (simp add: str_def)
qed

text \<open>
  Five ascending records yield two feature rows, those of the fourth and the fifth
  record: the rows of the three earliest records are dropped.
\<close>

theorem feature_rows_counterexample:
  "length (f_days (load_and_prepare_data
     [\<lparr>day = 3, total_sales = 10, orders_count = 1, items_sold = 2\<rparr>,
      \<lparr>day = 4, total_sales = 20, orders_count = 2, items_sold = 3\<rparr>,
      \<lparr>day = 5, total_sales = 0, orders_count = 3, items_sold = 4\<rparr>,
      \<lparr>day = 6, total_sales = 40, orders_count = 4, items_sold = 5\<rparr>,
      \<lparr>day = 7, total_sales = 50, orders_count = 5, items_sold = 6\<rparr>])) = 2
   \<and> f_days (load_and_prepare_data
     [\<lparr>day = 3, total_sales = 10, orders_count = 1, items_sold = 2\<rparr>,
      \<lparr>day = 4, total_sales = 20, orders_count = 2, items_sold = 3\<rparr>,
      \<lparr>day = 5, total_sales = 0, orders_count = 3, items_sold = 4\<rparr>,
      \<lparr>day = 6, total_sales = 40, orders_count = 4, items_sold = 5\<rparr>,
      \<lparr>day = 7, total_sales = 50, orders_count = 5, items_sold = 6\<rparr>]) = [6, 7]"
  by code_simp

end
